theory Spec2Isabelle
  imports
    Complex_Main
    "HOL-Library.Multiset"
    "HOL-Library.Char_ord"
    "HOL-Library.List_Lexorder"
    "HOL-Library.Product_Lexorder"
begin

section \<open>Values and exceptions\<close>

text \<open>
  A Python float: the double of a rational value, negative zero, an infinity or NaN.
  \<^verbatim>\<open>json.load\<close> gives a float for a number literal with a fraction or an exponent, and
  for the literals \<^verbatim>\<open>NaN\<close>, \<^verbatim>\<open>Infinity\<close> and \<^verbatim>\<open>-Infinity\<close>, which it accepts.
\<close>

datatype pyfloat = FNaN | FInf | FNegInf | FNegZero | FVal rat

text \<open>
  The objects \<^verbatim>\<open>json.load\<close> returns. A dict is an association list in insertion order
  (its keys are pairwise different, as in a Python dict); a number literal without
  fraction and exponent is an integer, any other a float. Strings are sequences of 8-bit
  characters, compared by character code.
\<close>

datatype json =
    JNull
  | JBool bool
  | JNum int
  | JFloat pyfloat
  | JStr string
  | JArr "json list"
  | JObj "(string \<times> json) list"

text \<open>
  The \<^verbatim>\<open>detail\<close> texts of the seven \<^verbatim>\<open>HTTPException\<close>s of \<^verbatim>\<open>main.py\<close> (the source
  writes them in Korean): decompressed size exceeded, file count exceeded and dangerous
  file contained, each for \<^verbatim>\<open>new_zip\<close> and for \<^verbatim>\<open>old_zip\<close>, and the one text of
  \<^verbatim>\<open>extract_usernames_from_zip\<close>, "followers_1.json or following.json is missing".
\<close>

datatype detail =
    New_zip_size_exceeded
  | New_zip_too_many_files
  | New_zip_dangerous_file
  | Old_zip_size_exceeded
  | Old_zip_too_many_files
  | Old_zip_dangerous_file
  | Followers_or_following_missing

text \<open>
  Every exception the code can raise. Only \<open>HTTPException\<close> is raised by \<^verbatim>\<open>main.py\<close>
  itself; the others come from \<^verbatim>\<open>zipfile\<close>, \<^verbatim>\<open>json\<close> and the interpreter.
\<close>

datatype exn =
    BadZipFile
  | JSONDecodeError
  | KeyError
  | TypeError
  | AttributeError
  | IndexError
  | HTTPException nat detail

definition bind_exn :: "exn + 'a \<Rightarrow> ('a \<Rightarrow> exn + 'b) \<Rightarrow> exn + 'b" where
  "bind_exn m f = (case m of Inl e \<Rightarrow> Inl e | Inr x \<Rightarrow> f x)"

section \<open>Archives\<close>

text \<open>
  What \<^verbatim>\<open>zipfile.ZipFile(io.BytesIO(zip_bytes))\<close> makes of an upload: it raises
  \<^verbatim>\<open>BadZipFile\<close>, or gives the members in directory order. A member has the name and the
  declared size of its \<^verbatim>\<open>ZipInfo\<close>, and its bytes, which are modelled by what
  \<^verbatim>\<open>json.load\<close> makes of them: a syntax error or a document.
\<close>

datatype payload = Malformed | Document json

record member =
  filename :: string
  file_size :: nat
  payload :: payload

datatype zip_bytes = Corrupt | Archive "member list"

definition namelist :: "member list \<Rightarrow> string list" where
  "namelist z = map filename z"

text \<open>
  \<^verbatim>\<open>ZipFile.open(name)\<close> looks the name up in the archive's name table, which holds for each
  name the last member of that name, and raises \<^verbatim>\<open>KeyError\<close> when the name is not there.
\<close>

definition zip_open :: "member list \<Rightarrow> string \<Rightarrow> exn + payload" where
  "zip_open z name =
     (case find (\<lambda>m. filename m = name) (rev z) of
        None \<Rightarrow> Inl KeyError
      | Some m \<Rightarrow> Inr (payload m))"

definition json_load :: "payload \<Rightarrow> exn + json" where
  "json_load p = (case p of Malformed \<Rightarrow> Inl JSONDecodeError | Document d \<Rightarrow> Inr d)"

section \<open>Strings\<close>

text \<open>\<^verbatim>\<open>sub in s\<close>, \<^verbatim>\<open>s.endswith(suffixes)\<close> and \<^verbatim>\<open>s.lower()\<close>.\<close>

fun startswith :: "string \<Rightarrow> string \<Rightarrow> bool" where
  "startswith s [] = True"
| "startswith [] (p # ps) = False"
| "startswith (c # cs) (p # ps) = (c = p \<and> startswith cs ps)"

fun contains :: "string \<Rightarrow> string \<Rightarrow> bool" where
  "contains [] sub = (sub = [])"
| "contains (c # cs) sub = (startswith (c # cs) sub \<or> contains cs sub)"

definition endswith :: "string \<Rightarrow> string \<Rightarrow> bool" where
  "endswith s suf = startswith (rev s) (rev suf)"

definition endswith_any :: "string \<Rightarrow> string list \<Rightarrow> bool" where
  "endswith_any s sufs = list_ex (endswith s) sufs"

definition lower_char :: "char \<Rightarrow> char" where
  "lower_char c =
     (let n = (of_char c :: nat)
      in if (65 \<le> n \<and> n \<le> 90) \<or> (192 \<le> n \<and> n \<le> 222 \<and> n \<noteq> 215)
         then char_of (n + 32) else c)"

definition lower :: "string \<Rightarrow> string" where
  "lower s = map lower_char s"

section \<open>The three guards\<close>

definition MAX_SIZE :: nat where
  "MAX_SIZE = 50 * 1024 * 1024"

definition MAX_FILES :: nat where
  "MAX_FILES = 100"

definition DANGEROUS_EXTENSIONS :: "string list" where
  "DANGEROUS_EXTENSIONS = [''.exe'', ''.bat'', ''.py'', ''.sh'']"

definition is_zip_safe :: "zip_bytes \<Rightarrow> exn + bool" where
  "is_zip_safe zip_bytes =
     (case zip_bytes of
        Corrupt \<Rightarrow> Inl BadZipFile
      | Archive z \<Rightarrow> Inr (sum_list (map file_size z) \<le> MAX_SIZE))"

definition has_too_many_files :: "zip_bytes \<Rightarrow> exn + bool" where
  "has_too_many_files zip_bytes =
     (case zip_bytes of
        Corrupt \<Rightarrow> Inl BadZipFile
      | Archive z \<Rightarrow> Inr (length z > MAX_FILES))"

definition has_dangerous_files :: "zip_bytes \<Rightarrow> exn + bool" where
  "has_dangerous_files zip_bytes =
     (case zip_bytes of
        Corrupt \<Rightarrow> Inl BadZipFile
      | Archive z \<Rightarrow>
          Inr (list_ex (\<lambda>name. endswith_any (lower name) DANGEROUS_EXTENSIONS) (namelist z)))"

section \<open>Dynamic operations on documents\<close>

text \<open>
  \<^verbatim>\<open>for x in v\<close>: a list gives its elements, a dict its keys, a string its characters;
  nothing else is iterable.
\<close>

fun py_iter :: "json \<Rightarrow> exn + json list" where
  "py_iter (JArr xs) = Inr xs"
| "py_iter (JObj kvs) = Inr (map (\<lambda>kv. JStr (fst kv)) kvs)"
| "py_iter (JStr s) = Inr (map (\<lambda>c. JStr [c]) s)"
| "py_iter v = Inl TypeError"

text \<open>\<^verbatim>\<open>v.get(key, default)\<close>: only a dict has the method.\<close>

fun py_get :: "json \<Rightarrow> string \<Rightarrow> json \<Rightarrow> exn + json" where
  "py_get (JObj kvs) k d = Inr (case map_of kvs k of None \<Rightarrow> d | Some v \<Rightarrow> v)"
| "py_get v k d = Inl AttributeError"

text \<open>\<^verbatim>\<open>v[key]\<close> with a string key.\<close>

fun py_getitem :: "json \<Rightarrow> string \<Rightarrow> exn + json" where
  "py_getitem (JObj kvs) k = (case map_of kvs k of None \<Rightarrow> Inl KeyError | Some v \<Rightarrow> Inr v)"
| "py_getitem v k = Inl TypeError"

text \<open>
  \<^verbatim>\<open>v[0]\<close>: the first element of a list or of a string; on a dict the key \<^verbatim>\<open>0\<close> is never
  there, as the keys of a document are strings.
\<close>

fun py_getitem0 :: "json \<Rightarrow> exn + json" where
  "py_getitem0 (JArr []) = Inl IndexError"
| "py_getitem0 (JArr (x # xs)) = Inr x"
| "py_getitem0 (JStr []) = Inl IndexError"
| "py_getitem0 (JStr (c # cs)) = Inr (JStr [c])"
| "py_getitem0 (JObj kvs) = Inl KeyError"
| "py_getitem0 v = Inl TypeError"

fun truthy :: "json \<Rightarrow> bool" where
  "truthy JNull = False"
| "truthy (JBool b) = b"
| "truthy (JNum n) = (n \<noteq> 0)"
| "truthy (JFloat f) = (f \<noteq> FVal 0 \<and> f \<noteq> FNegZero)"
| "truthy (JStr s) = (s \<noteq> [])"
| "truthy (JArr xs) = (xs \<noteq> [])"
| "truthy (JObj kvs) = (kvs \<noteq> [])"

section \<open>Sets of hashable values\<close>

text \<open>
  The values a Python set can hold among those of a document. A set is kept as the list of
  its elements, pairwise different as the set compares them, and an element that is
  already there is not stored again. Numbers are equal when their values are:
  \<^verbatim>\<open>True == 1 == 1.0\<close> and \<^verbatim>\<open>0.0 == -0.0\<close>. NaN is equal to no number, but every
  \<^verbatim>\<open>NaN\<close> of a document is the one object \<^verbatim>\<open>json.decoder.NaN\<close>, which a set finds
  again by its identity.
\<close>

datatype scalar = SNone | SBool bool | SNum int | SFloat pyfloat | SStr string

text \<open>
  The place of a number among the numbers: minus infinity, the finite values, and
  infinity, in the lexicographic order of pairs. NaN has no place.
\<close>

fun num_key :: "scalar \<Rightarrow> int \<times> rat" where
  "num_key (SBool b) = (0, if b then 1 else 0)"
| "num_key (SNum n) = (0, of_int n)"
| "num_key (SFloat (FVal q)) = (0, q)"
| "num_key (SFloat FNegZero) = (0, 0)"
| "num_key (SFloat FInf) = (1, 0)"
| "num_key (SFloat FNegInf) = (- 1, 0)"
| "num_key x = (0, 0)"

datatype pykey = KNone | KNaN | KNum "int \<times> rat" | KStr string

fun py_key :: "scalar \<Rightarrow> pykey" where
  "py_key SNone = KNone"
| "py_key (SStr s) = KStr s"
| "py_key (SFloat FNaN) = KNaN"
| "py_key x = KNum (num_key x)"

text \<open>Hashing a list or a dict raises \<^verbatim>\<open>TypeError\<close>.\<close>

fun py_hashable :: "json \<Rightarrow> exn + scalar" where
  "py_hashable JNull = Inr SNone"
| "py_hashable (JBool b) = Inr (SBool b)"
| "py_hashable (JNum n) = Inr (SNum n)"
| "py_hashable (JFloat f) = Inr (SFloat f)"
| "py_hashable (JStr s) = Inr (SStr s)"
| "py_hashable v = Inl TypeError"

definition set_member :: "scalar \<Rightarrow> scalar list \<Rightarrow> bool" where
  "set_member x s = (py_key x \<in> py_key ` set s)"

definition set_add :: "scalar list \<Rightarrow> json \<Rightarrow> exn + scalar list" where
  "set_add s v =
     bind_exn (py_hashable v) (\<lambda>x. Inr (if set_member x s then s else s @ [x]))"

definition set_difference :: "scalar list \<Rightarrow> scalar list \<Rightarrow> scalar list" where
  "set_difference a b = filter (\<lambda>x. \<not> set_member x b) a"

text \<open>
  What the handler does not control of the interpreter process it runs in.
  \<open>list_of_set\<close> is \<^verbatim>\<open>list(s)\<close> on a set: it gives the elements of the set in the order
  of the hash table, which varies with the hash seed of the process and, for NaN, with
  the address of the object. \<open>sort_unordered\<close> is what the list sort leaves of three or
  more numbers with a NaN among them: NaN is neither less nor greater than any number,
  so the result depends on the comparisons the sorting algorithm happens to make.
\<close>

record interpreter =
  list_of_set :: "scalar list \<Rightarrow> scalar list"
  sort_unordered :: "scalar list \<Rightarrow> scalar list"

fun is_str :: "scalar \<Rightarrow> bool" where
  "is_str (SStr s) = True"
| "is_str x = False"

fun str_of :: "scalar \<Rightarrow> string" where
  "str_of (SStr s) = s"
| "str_of x = []"

fun is_num :: "scalar \<Rightarrow> bool" where
  "is_num (SNum n) = True"
| "is_num (SBool b) = True"
| "is_num (SFloat f) = True"
| "is_num x = False"

fun is_nan :: "scalar \<Rightarrow> bool" where
  "is_nan (SFloat FNaN) = True"
| "is_nan x = False"

text \<open>
  \<^verbatim>\<open>sorted(xs)\<close>: strings are compared with strings by character code, numbers (booleans
  and floats among them) with numbers by value; any other comparison raises
  \<^verbatim>\<open>TypeError\<close>, and a list of fewer than two elements needs no comparison. The sort is
  stable. Of two numbers it swaps the second before the first when the second is less,
  which it never is when one of them is NaN.
\<close>

definition py_sorted :: "interpreter \<Rightarrow> scalar list \<Rightarrow> exn + scalar list" where
  "py_sorted py xs =
     (if length xs \<le> 1 then Inr xs
      else if list_all is_str xs then Inr (sort_key str_of xs)
      else if list_all is_num xs then
        (if list_ex is_nan xs
         then (if length xs = 2 then Inr xs else Inr (sort_unordered py xs))
         else Inr (sort_key num_key xs))
      else Inl TypeError)"

section \<open>Extraction\<close>

text \<open>
  The two loops of the set comprehension
  \<^verbatim>\<open>{entry["value"] for item in data for entry in item.get("string_list_data", [])}\<close>,
  the set built so far as accumulator.
\<close>

fun collect_entries :: "json list \<Rightarrow> scalar list \<Rightarrow> exn + scalar list" where
  "collect_entries [] acc = Inr acc"
| "collect_entries (entry # entries) acc =
     bind_exn (py_getitem entry ''value'') (\<lambda>v.
     bind_exn (set_add acc v) (\<lambda>acc'.
     collect_entries entries acc'))"

fun collect_items :: "json list \<Rightarrow> scalar list \<Rightarrow> exn + scalar list" where
  "collect_items [] acc = Inr acc"
| "collect_items (item # items) acc =
     bind_exn (py_get item ''string_list_data'' (JArr [])) (\<lambda>l.
     bind_exn (py_iter l) (\<lambda>entries.
     bind_exn (collect_entries entries acc) (\<lambda>acc'.
     collect_items items acc')))"

definition falsy_path :: "string option \<Rightarrow> bool" where
  "falsy_path p = (case p of None \<Rightarrow> True | Some n \<Rightarrow> n = [])"

definition extract_usernames_from_zip :: "zip_bytes \<Rightarrow> exn + scalar list \<times> scalar list" where
  "extract_usernames_from_zip zip_bytes =
     (case zip_bytes of
        Corrupt \<Rightarrow> Inl BadZipFile
      | Archive zip_file \<Rightarrow>
          (let followers_path = find (\<lambda>n. contains n ''followers_1.json'') (namelist zip_file);
               following_path = find (\<lambda>n. contains n ''following.json'') (namelist zip_file)
           in if falsy_path followers_path \<or> falsy_path following_path
              then Inl (HTTPException 400 Followers_or_following_missing)
              else
                bind_exn (zip_open zip_file (the followers_path)) (\<lambda>f.
                bind_exn (json_load f) (\<lambda>followers_data.
                bind_exn (py_iter followers_data) (\<lambda>items.
                bind_exn (collect_items items []) (\<lambda>followers.
                bind_exn (zip_open zip_file (the following_path)) (\<lambda>f.
                bind_exn (json_load f) (\<lambda>following_data.
                bind_exn (py_get following_data ''relationships_following'' (JArr [])) (\<lambda>l.
                bind_exn (py_iter l) (\<lambda>items.
                bind_exn (collect_items items []) (\<lambda>following.
                Inr (followers, following))))))))))))"

text \<open>
  The list comprehension of \<^verbatim>\<open>extract_recently_unfollowed\<close> and
  \<^verbatim>\<open>extract_pending_requests\<close>:
  \<^verbatim>\<open>[entry["string_list_data"][0]["value"] for entry in ... if entry.get("string_list_data")]\<close>.
\<close>

fun first_values :: "json list \<Rightarrow> exn + json list" where
  "first_values [] = Inr []"
| "first_values (entry # entries) =
     bind_exn (py_get entry ''string_list_data'' JNull) (\<lambda>c.
     if truthy c then
       bind_exn (py_getitem entry ''string_list_data'') (\<lambda>l.
       bind_exn (py_getitem0 l) (\<lambda>e.
       bind_exn (py_getitem e ''value'') (\<lambda>v.
       bind_exn (first_values entries) (\<lambda>vs.
       Inr (v # vs)))))
     else first_values entries)"

text \<open>The list comprehension of \<^verbatim>\<open>extract_blocked_users\<close>: \<^verbatim>\<open>[entry["title"] for entry in ...]\<close>.\<close>

fun titles :: "json list \<Rightarrow> exn + json list" where
  "titles [] = Inr []"
| "titles (entry # entries) =
     bind_exn (py_getitem entry ''title'') (\<lambda>v.
     bind_exn (titles entries) (\<lambda>vs.
     Inr (v # vs)))"

text \<open>\<^verbatim>\<open>try: ... except KeyError: return []\<close>\<close>

definition except_KeyError :: "exn + json list \<Rightarrow> exn + json list" where
  "except_KeyError r = (case r of Inl e \<Rightarrow> (if e = KeyError then Inr [] else Inl e) | Inr vs \<Rightarrow> Inr vs)"

definition extract_recently_unfollowed :: "zip_bytes \<Rightarrow> exn + json list" where
  "extract_recently_unfollowed zip_bytes =
     (case zip_bytes of
        Corrupt \<Rightarrow> Inl BadZipFile
      | Archive zip_file \<Rightarrow>
          except_KeyError (
            bind_exn (zip_open zip_file
                ''connections/followers_and_following/recently_unfollowed_profiles.json'') (\<lambda>f.
            bind_exn (json_load f) (\<lambda>data.
            bind_exn (py_get data ''relationships_unfollowed_users'' (JArr [])) (\<lambda>l.
            bind_exn (py_iter l) first_values)))))"

definition extract_blocked_users :: "zip_bytes \<Rightarrow> exn + json list" where
  "extract_blocked_users zip_bytes =
     (case zip_bytes of
        Corrupt \<Rightarrow> Inl BadZipFile
      | Archive zip_file \<Rightarrow>
          except_KeyError (
            bind_exn (zip_open zip_file
                ''connections/followers_and_following/blocked_profiles.json'') (\<lambda>f.
            bind_exn (json_load f) (\<lambda>data.
            bind_exn (py_get data ''relationships_blocked_users'' (JArr [])) (\<lambda>l.
            bind_exn (py_iter l) titles)))))"

definition extract_pending_requests :: "zip_bytes \<Rightarrow> exn + json list" where
  "extract_pending_requests zip_bytes =
     (case zip_bytes of
        Corrupt \<Rightarrow> Inl BadZipFile
      | Archive zip_file \<Rightarrow>
          except_KeyError (
            bind_exn (zip_open zip_file
                ''connections/followers_and_following/pending_follow_requests.json'') (\<lambda>f.
            bind_exn (json_load f) (\<lambda>data.
            bind_exn (py_get data ''relationships_follow_requests_sent'' (JArr [])) (\<lambda>l.
            bind_exn (py_iter l) first_values)))))"

section \<open>The analysis\<close>

record result =
  unfollowers :: "scalar list"
  not_following_back :: "scalar list"
  recently_unfollowed :: "json list"
  blocked_users :: "json list"
  pending_requests :: "json list"

text \<open>
  The handler of \<^verbatim>\<open>POST /analyze\<close>. \<open>old_zip\<close> is \<open>None\<close> when no old archive is
  uploaded, and \<open>py\<close> is the interpreter process the handler runs in.
\<close>

definition analyze_zip_files ::
  "interpreter \<Rightarrow> zip_bytes \<Rightarrow> zip_bytes option \<Rightarrow> exn + result" where
  "analyze_zip_files py new_bytes old_zip =
     bind_exn (is_zip_safe new_bytes) (\<lambda>safe.
     if \<not> safe then Inl (HTTPException 400 New_zip_size_exceeded) else
     bind_exn (has_too_many_files new_bytes) (\<lambda>many.
     if many then Inl (HTTPException 400 New_zip_too_many_files) else
     bind_exn (has_dangerous_files new_bytes) (\<lambda>dangerous.
     if dangerous then Inl (HTTPException 400 New_zip_dangerous_file) else
     bind_exn (extract_usernames_from_zip new_bytes) (\<lambda>(new_followers, new_following).
     bind_exn (extract_recently_unfollowed new_bytes) (\<lambda>recently_unfollowed.
     bind_exn (extract_blocked_users new_bytes) (\<lambda>blocked_users.
     bind_exn (extract_pending_requests new_bytes) (\<lambda>pending_requests.
     bind_exn
       (case old_zip of
          Some old_bytes \<Rightarrow>
            bind_exn (is_zip_safe old_bytes) (\<lambda>safe.
            if \<not> safe then Inl (HTTPException 400 Old_zip_size_exceeded) else
            bind_exn (has_too_many_files old_bytes) (\<lambda>many.
            if many then Inl (HTTPException 400 Old_zip_too_many_files) else
            bind_exn (has_dangerous_files old_bytes) (\<lambda>dangerous.
            if dangerous then Inl (HTTPException 400 Old_zip_dangerous_file) else
            bind_exn (extract_usernames_from_zip old_bytes) (\<lambda>(old_followers, _).
            py_sorted py (list_of_set py (set_difference old_followers new_followers))))))
        | None \<Rightarrow> Inr [])
       (\<lambda>unfollowers.
     bind_exn (py_sorted py (list_of_set py (set_difference new_following new_followers)))
       (\<lambda>not_following_back.
     Inr \<lparr>unfollowers = unfollowers,
          not_following_back = not_following_back,
          recently_unfollowed = recently_unfollowed,
          blocked_users = blocked_users,
          pending_requests = pending_requests\<rparr>)))))))))"

section \<open>The answer to the caller\<close>

text \<open>
  The result is rendered by the framework's \<^verbatim>\<open>JSONResponse\<close>, with
  \<^verbatim>\<open>json.dumps(..., allow_nan=False)\<close>: a NaN or an infinity anywhere in the result raises
  \<^verbatim>\<open>ValueError\<close>.
\<close>

fun finite_float :: "pyfloat \<Rightarrow> bool" where
  "finite_float FNaN = False"
| "finite_float FInf = False"
| "finite_float FNegInf = False"
| "finite_float f = True"

fun json_compliant :: "json \<Rightarrow> bool" where
  "json_compliant (JFloat f) = finite_float f"
| "json_compliant (JArr xs) = (\<forall>x \<in> set xs. json_compliant x)"
| "json_compliant (JObj kvs) = (\<forall>kv \<in> set kvs. json_compliant (snd kv))"
| "json_compliant v = True"

fun scalar_compliant :: "scalar \<Rightarrow> bool" where
  "scalar_compliant (SFloat f) = finite_float f"
| "scalar_compliant x = True"

definition result_compliant :: "result \<Rightarrow> bool" where
  "result_compliant r \<longleftrightarrow>
       list_all scalar_compliant (unfollowers r)
     \<and> list_all scalar_compliant (not_following_back r)
     \<and> list_all json_compliant (recently_unfollowed r)
     \<and> list_all json_compliant (blocked_users r)
     \<and> list_all json_compliant (pending_requests r)"

text \<open>
  The status of the HTTP answer. A result that renders is answered with 200 and an
  \<^verbatim>\<open>HTTPException\<close> with its own status code and text. Any other exception leaves the
  handler, or the rendering; \<^verbatim>\<open>validate_origin_middleware\<close> catches every
  \<^verbatim>\<open>Exception\<close> and answers 500, "Internal server error".
\<close>

definition response_status :: "exn + result \<Rightarrow> nat" where
  "response_status outcome =
     (case outcome of
        Inr r \<Rightarrow> (if result_compliant r then 200 else 500)
      | Inl e \<Rightarrow> (case e of HTTPException status_code d \<Rightarrow> status_code | _ \<Rightarrow> 500))"

section \<open>Two interpreter processes\<close>

text \<open>One lists a set in the order of insertion, the other in the reverse order.\<close>

definition insertion_order :: interpreter where
  "insertion_order = \<lparr>list_of_set = id, sort_unordered = id\<rparr>"

definition reverse_order :: interpreter where
  "reverse_order = \<lparr>list_of_set = rev, sort_unordered = id\<rparr>"

section \<open>Example exports\<close>

text \<open>
  Documents of the shape the export has: a relationship record carries its account name
  in the \<^verbatim>\<open>value\<close> of the first entry of its \<^verbatim>\<open>string_list_data\<close>.
\<close>

definition relationship :: "string \<Rightarrow> json" where
  "relationship u =
     JObj [(''title'', JStr []),
           (''string_list_data'', JArr [JObj [(''value'', JStr u), (''timestamp'', JNum 0)]])]"

definition followers_doc :: "string list \<Rightarrow> json" where
  "followers_doc us = JArr (map relationship us)"

definition following_doc :: "string list \<Rightarrow> json" where
  "following_doc us = JObj [(''relationships_following'', JArr (map relationship us))]"

definition followers_member :: "string list \<Rightarrow> member" where
  "followers_member fs =
     \<lparr>filename = ''connections/followers_and_following/followers_1.json'',
      file_size = 100, payload = Document (followers_doc fs)\<rparr>"

definition following_member :: "string list \<Rightarrow> member" where
  "following_member gs =
     \<lparr>filename = ''connections/followers_and_following/following.json'',
      file_size = 100, payload = Document (following_doc gs)\<rparr>"

definition export :: "string list \<Rightarrow> string list \<Rightarrow> member list" where
  "export fs gs = [followers_member fs, following_member gs]"

definition optional_member :: "string \<Rightarrow> payload \<Rightarrow> member" where
  "optional_member name p =
     \<lparr>filename = ''connections/followers_and_following/'' @ name,
      file_size = 100, payload = p\<rparr>"

definition sized :: "nat \<Rightarrow> member list" where
  "sized n = [\<lparr>filename = ''media/photo.jpg'', file_size = n, payload = Malformed\<rparr>]"

definition malformed_optionals :: "member list" where
  "malformed_optionals =
     export [''a'', ''b''] [''a'', ''c'']
     @ [optional_member ''recently_unfollowed_profiles.json'' Malformed,
        optional_member ''blocked_profiles.json'' Malformed,
        optional_member ''pending_follow_requests.json'' Malformed]"

text \<open>A record is a dict; it has a field when the key is among its keys.\<close>

fun is_dict :: "json \<Rightarrow> bool" where
  "is_dict (JObj kvs) = True"
| "is_dict v = False"

fun has_key :: "json \<Rightarrow> string \<Rightarrow> bool" where
  "has_key (JObj kvs) k = (map_of kvs k \<noteq> None)"
| "has_key v k = False"

definition blocked_doc :: "(string \<times> json) list" where
  "blocked_doc =
     [(''relationships_blocked_users'',
       JArr [JObj [(''title'', JStr ''spammer''), (''string_list_data'', JArr [])],
             JObj [(''string_list_data'', JArr [])],
             JObj [(''title'', JStr ''troll'')],
             JNull])]"

definition blocked_export :: "member list" where
  "blocked_export =
     export [''a'', ''b''] [''a'', ''c'']
     @ [optional_member ''blocked_profiles.json'' (Document (JObj blocked_doc))]"

text \<open>The same export with a first record that is not a dict.\<close>

definition null_blocked_export :: "member list" where
  "null_blocked_export =
     export [''a'', ''b''] [''a'', ''c'']
     @ [optional_member ''blocked_profiles.json''
          (Document (JObj [(''relationships_blocked_users'', JArr [JNull, JObj []])]))]"

text \<open>Archives that hold two members of the same name, as a zip file may.\<close>

definition twice_followers :: "member list" where
  "twice_followers = [followers_member [''first''], followers_member [''second''],
     following_member [''g'']]"

definition several_matches :: "member list" where
  "several_matches =
     [\<lparr>filename = ''media/readme.txt'', file_size = 1, payload = Malformed\<rparr>,
      followers_member [''first''],
      \<lparr>filename = ''backup/followers_1.json'', file_size = 5, payload = Document JNull\<rparr>,
      followers_member [''second''],
      \<lparr>filename = ''backup/following.json'', file_size = 5,
        payload = Document (following_doc [''g''])\<rparr>,
      \<lparr>filename = ''connections/followers_and_following/following.json'', file_size = 5,
        payload = Document (JNum 5)\<rparr>]"

section \<open>The order and the difference, as the specification words them\<close>




section \<open>The stages, as the specification names them\<close>

text \<open>
  \<open>validate\<close>: the three guards in the order of the handler, with the texts of the
  archive they are applied to.
\<close>

definition validate_new :: "zip_bytes \<Rightarrow> exn + unit" where
  "validate_new b =
     bind_exn (is_zip_safe b) (\<lambda>safe.
     if \<not> safe then Inl (HTTPException 400 New_zip_size_exceeded) else
     bind_exn (has_too_many_files b) (\<lambda>many.
     if many then Inl (HTTPException 400 New_zip_too_many_files) else
     bind_exn (has_dangerous_files b) (\<lambda>dangerous.
     if dangerous then Inl (HTTPException 400 New_zip_dangerous_file) else Inr ())))"

definition validate_old :: "zip_bytes \<Rightarrow> exn + unit" where
  "validate_old b =
     bind_exn (is_zip_safe b) (\<lambda>safe.
     if \<not> safe then Inl (HTTPException 400 Old_zip_size_exceeded) else
     bind_exn (has_too_many_files b) (\<lambda>many.
     if many then Inl (HTTPException 400 Old_zip_too_many_files) else
     bind_exn (has_dangerous_files b) (\<lambda>dangerous.
     if dangerous then Inl (HTTPException 400 Old_zip_dangerous_file) else Inr ())))"

text \<open>\<open>extractSnapshot\<close> with its three optional extractions.\<close>

definition extract_snapshot ::
  "zip_bytes \<Rightarrow> exn + (scalar list \<times> scalar list) \<times> json list \<times> json list \<times> json list" where
  "extract_snapshot b =
     bind_exn (extract_usernames_from_zip b) (\<lambda>sets.
     bind_exn (extract_recently_unfollowed b) (\<lambda>ru.
     bind_exn (extract_blocked_users b) (\<lambda>bu.
     bind_exn (extract_pending_requests b) (\<lambda>pr.
     Inr (sets, ru, bu, pr)))))"

text \<open>The extraction from the old archive, of which the handler keeps the followers.\<close>

definition extract_old_followers :: "zip_bytes \<Rightarrow> exn + scalar list" where
  "extract_old_followers b =
     bind_exn (extract_usernames_from_zip b) (\<lambda>(old_followers, _). Inr old_followers)"

definition diff ::
  "interpreter \<Rightarrow> scalar list option \<Rightarrow> scalar list \<Rightarrow> scalar list
     \<Rightarrow> exn + scalar list \<times> scalar list" where
  "diff py old_followers new_followers new_following =
     bind_exn
       (case old_followers of
          None \<Rightarrow> Inr []
        | Some old \<Rightarrow> py_sorted py (list_of_set py (set_difference old new_followers)))
       (\<lambda>unfollowers.
     bind_exn (py_sorted py (list_of_set py (set_difference new_following new_followers)))
       (\<lambda>not_following_back.
     Inr (unfollowers, not_following_back)))"

definition assemble ::
  "scalar list \<times> scalar list \<Rightarrow> json list \<Rightarrow> json list \<Rightarrow> json list \<Rightarrow> result" where
  "assemble d ru bu pr =
     \<lparr>unfollowers = fst d, not_following_back = snd d, recently_unfollowed = ru,
      blocked_users = bu, pending_requests = pr\<rparr>"

text \<open>
  The sequence of the specification: validate(new), validate(old), extractSnapshot(new),
  extraction from old, diff. The stages are those of the handler; the order is the
  specification's.
\<close>

definition sequence_of_specification ::
  "interpreter \<Rightarrow> zip_bytes \<Rightarrow> zip_bytes option \<Rightarrow> exn + result" where
  "sequence_of_specification py new_bytes old_zip =
     bind_exn (validate_new new_bytes) (\<lambda>_.
     bind_exn (case old_zip of None \<Rightarrow> Inr () | Some old_bytes \<Rightarrow> validate_old old_bytes) (\<lambda>_.
     bind_exn (extract_snapshot new_bytes) (\<lambda>((new_followers, new_following), ru, bu, pr).
     bind_exn
       (case old_zip of
          None \<Rightarrow> Inr None
        | Some old_bytes \<Rightarrow> bind_exn (extract_old_followers old_bytes) (\<lambda>f. Inr (Some f)))
       (\<lambda>old_followers.
     bind_exn (diff py old_followers new_followers new_following) (\<lambda>d.
     Inr (assemble d ru bu pr))))))"

text \<open>
  The sequence of the handler: validate(new), extractSnapshot(new), validate(old),
  extraction from old, diff.
\<close>

definition sequence_of_handler ::
  "interpreter \<Rightarrow> zip_bytes \<Rightarrow> zip_bytes option \<Rightarrow> exn + result" where
  "sequence_of_handler py new_bytes old_zip =
     bind_exn (validate_new new_bytes) (\<lambda>_.
     bind_exn (extract_snapshot new_bytes) (\<lambda>((new_followers, new_following), ru, bu, pr).
     bind_exn (case old_zip of None \<Rightarrow> Inr () | Some old_bytes \<Rightarrow> validate_old old_bytes) (\<lambda>_.
     bind_exn
       (case old_zip of
          None \<Rightarrow> Inr None
        | Some old_bytes \<Rightarrow> bind_exn (extract_old_followers old_bytes) (\<lambda>f. Inr (Some f)))
       (\<lambda>old_followers.
     bind_exn (diff py old_followers new_followers new_following) (\<lambda>d.
     Inr (assemble d ru bu pr))))))"

definition malformed_followers_export :: "member list" where
  "malformed_followers_export =
     [\<lparr>filename = ''connections/followers_and_following/followers_1.json'',
       file_size = 100, payload = Malformed\<rparr>,
      following_member [''a'']]"

definition malformed_following_export :: "member list" where
  "malformed_following_export =
     [followers_member [''a'', ''b''],
      \<lparr>filename = ''connections/followers_and_following/following.json'',
       file_size = 100, payload = Malformed\<rparr>]"

section \<open>Values without NaN\<close>

text \<open>No value that the extraction collects from the archive is NaN.\<close>

definition nan_free_usernames :: "zip_bytes \<Rightarrow> bool" where
  "nan_free_usernames b =
     (case extract_usernames_from_zip b of
        Inl e \<Rightarrow> True
      | Inr sets \<Rightarrow> \<not> list_ex is_nan (fst sets) \<and> \<not> list_ex is_nan (snd sets))"

text \<open>An export in which the account follows the values \<^verbatim>\<open>1\<close> and \<^verbatim>\<open>NaN\<close>.\<close>

definition nan_export :: "member list" where
  "nan_export =
     [followers_member [],
      \<lparr>filename = ''connections/followers_and_following/following.json'',
       file_size = 100,
       payload = Document (JObj [(''relationships_following'',
         JArr [JObj [(''string_list_data'',
           JArr [JObj [(''value'', JNum 1)], JObj [(''value'', JFloat FNaN)]])]])])\<rparr>]"

section \<open>The two documents, once opened\<close>

text \<open>
  What \<^verbatim>\<open>extract_usernames_from_zip\<close> does with the two files that
  \<^verbatim>\<open>zip_file.open(followers_path)\<close> and \<^verbatim>\<open>zip_file.open(following_path)\<close> give it.
\<close>

definition read_documents :: "payload \<Rightarrow> payload \<Rightarrow> exn + scalar list \<times> scalar list" where
  "read_documents followers_file following_file =
     bind_exn (json_load followers_file) (\<lambda>followers_data.
     bind_exn (py_iter followers_data) (\<lambda>items.
     bind_exn (collect_items items []) (\<lambda>followers.
     bind_exn (json_load following_file) (\<lambda>following_data.
     bind_exn (py_get following_data ''relationships_following'' (JArr [])) (\<lambda>l.
     bind_exn (py_iter l) (\<lambda>items.
     bind_exn (collect_items items []) (\<lambda>following.
     Inr (followers, following))))))))"

section \<open>Basic facts\<close>

lemma bind_exn_simps [simp]:
  "bind_exn (Inl e) f = Inl e"
  "bind_exn (Inr x) f = f x"
  by (simp_all add: bind_exn_def)

lemma bind_exn_eq_Inr: "bind_exn m f = Inr y \<longleftrightarrow> (\<exists>x. m = Inr x \<and> f x = Inr y)"
  by (cases m) simp_all

lemmas example_defs = export_def followers_member_def following_member_def optional_member_def
  followers_doc_def following_doc_def relationship_def sized_def

lemmas guard_defs = is_zip_safe_def MAX_SIZE_def has_too_many_files_def MAX_FILES_def
  has_dangerous_files_def DANGEROUS_EXTENSIONS_def namelist_def endswith_any_def endswith_def
  lower_def lower_char_def

lemmas extract_defs = extract_usernames_from_zip_def falsy_path_def zip_open_def json_load_def
  namelist_def set_add_def set_member_def extract_recently_unfollowed_def
  extract_blocked_users_def extract_pending_requests_def except_KeyError_def

lemmas diff_defs = set_difference_def set_member_def py_sorted_def
  insertion_order_def reverse_order_def

text \<open>A successful analysis: every stage has succeeded, and the result holds what they gave.\<close>

lemma analyze_Inr_D:
  assumes "analyze_zip_files py new_bytes old_zip = Inr r"
  shows "\<exists>nf ng ru bu pr.
      is_zip_safe new_bytes = Inr True \<and> has_too_many_files new_bytes = Inr False
    \<and> has_dangerous_files new_bytes = Inr False
    \<and> extract_usernames_from_zip new_bytes = Inr (nf, ng)
    \<and> extract_recently_unfollowed new_bytes = Inr ru
    \<and> extract_blocked_users new_bytes = Inr bu
    \<and> extract_pending_requests new_bytes = Inr pr
    \<and> recently_unfollowed r = ru \<and> blocked_users r = bu \<and> pending_requests r = pr
    \<and> py_sorted py (list_of_set py (set_difference ng nf)) = Inr (not_following_back r)
    \<and> (case old_zip of
          None \<Rightarrow> unfollowers r = []
        | Some old_bytes \<Rightarrow> \<exists>ofs og.
            is_zip_safe old_bytes = Inr True \<and> has_too_many_files old_bytes = Inr False
          \<and> has_dangerous_files old_bytes = Inr False
          \<and> extract_usernames_from_zip old_bytes = Inr (ofs, og)
          \<and> py_sorted py (list_of_set py (set_difference ofs nf)) = Inr (unfollowers r))"
  using assms unfolding analyze_zip_files_def bind_exn_def
  by (cases old_zip) (auto split: sum.splits if_splits prod.splits)

text \<open>Once the stages on the new archive have succeeded, the rest of the handler remains.\<close>

lemma analyze_new_ok:
  assumes "is_zip_safe new_bytes = Inr True" "has_too_many_files new_bytes = Inr False"
    "has_dangerous_files new_bytes = Inr False"
    "extract_usernames_from_zip new_bytes = Inr (nf, ng)"
    "extract_recently_unfollowed new_bytes = Inr ru"
    "extract_blocked_users new_bytes = Inr bu"
    "extract_pending_requests new_bytes = Inr pr"
  shows "analyze_zip_files py new_bytes old_zip =
     bind_exn
       (case old_zip of
          Some old_bytes \<Rightarrow>
            bind_exn (is_zip_safe old_bytes) (\<lambda>safe.
            if \<not> safe then Inl (HTTPException 400 Old_zip_size_exceeded) else
            bind_exn (has_too_many_files old_bytes) (\<lambda>many.
            if many then Inl (HTTPException 400 Old_zip_too_many_files) else
            bind_exn (has_dangerous_files old_bytes) (\<lambda>dangerous.
            if dangerous then Inl (HTTPException 400 Old_zip_dangerous_file) else
            bind_exn (extract_usernames_from_zip old_bytes) (\<lambda>(old_followers, _).
            py_sorted py (list_of_set py (set_difference old_followers nf))))))
        | None \<Rightarrow> Inr [])
       (\<lambda>unfollowers.
     bind_exn (py_sorted py (list_of_set py (set_difference ng nf)))
       (\<lambda>not_following_back.
     Inr \<lparr>unfollowers = unfollowers,
          not_following_back = not_following_back,
          recently_unfollowed = ru,
          blocked_users = bu,
          pending_requests = pr\<rparr>))"
  using assms unfolding analyze_zip_files_def by simp

lemma analyze_None_new_stages:
  assumes "analyze_zip_files py new_bytes None = Inr r"
  obtains nf ng ru bu pr where
    "is_zip_safe new_bytes = Inr True" "has_too_many_files new_bytes = Inr False"
    "has_dangerous_files new_bytes = Inr False"
    "extract_usernames_from_zip new_bytes = Inr (nf, ng)"
    "extract_recently_unfollowed new_bytes = Inr ru"
    "extract_blocked_users new_bytes = Inr bu"
    "extract_pending_requests new_bytes = Inr pr"
    "py_sorted py (list_of_set py (set_difference ng nf)) = Inr (not_following_back r)"
  using analyze_Inr_D [OF assms] by auto

text \<open>The examples, evaluated.\<close>

lemma export_guards:
  "is_zip_safe (Archive (export fs gs)) = Inr True"
  "has_too_many_files (Archive (export fs gs)) = Inr False"
  "has_dangerous_files (Archive (export fs gs)) = Inr False"
  by (simp_all add: guard_defs example_defs)

lemma export_optional:
  "extract_recently_unfollowed (Archive (export fs gs)) = Inr []"
  "extract_blocked_users (Archive (export fs gs)) = Inr []"
  "extract_pending_requests (Archive (export fs gs)) = Inr []"
  by (simp_all add: extract_defs example_defs)

lemma export_abc_ad:
  "extract_usernames_from_zip (Archive (export [''a'', ''b'', ''c''] [''a'', ''d'']))
     = Inr ([SStr ''a'', SStr ''b'', SStr ''c''], [SStr ''a'', SStr ''d''])"
  by (simp add: extract_defs example_defs)

lemma analyze_abc_ad:
  "analyze_zip_files insertion_order (Archive (export [''a'', ''b'', ''c''] [''a'', ''d''])) None
     = Inr \<lparr>unfollowers = [], not_following_back = [SStr ''d''], recently_unfollowed = [],
            blocked_users = [], pending_requests = []\<rparr>"
  by (simp add: analyze_new_ok [OF export_guards export_abc_ad export_optional] diff_defs)

lemma export_acda_dadb:
  "extract_usernames_from_zip (Archive (export [''a'', ''c'', ''a''] [''d'', ''a'', ''d'', ''b'']))
     = Inr ([SStr ''a'', SStr ''c''], [SStr ''d'', SStr ''a'', SStr ''b''])"
  by (simp add: extract_defs example_defs)

lemma export_cbabab:
  "extract_usernames_from_zip (Archive (export [''c'', ''b'', ''a'', ''b'', ''ab''] []))
     = Inr ([SStr ''c'', SStr ''b'', SStr ''a'', SStr ''ab''], [])"
  by (simp add: extract_defs example_defs)

lemma analyze_rev_example:
  "analyze_zip_files reverse_order
     (Archive (export [''a'', ''c'', ''a''] [''d'', ''a'', ''d'', ''b'']))
     (Some (Archive (export [''c'', ''b'', ''a'', ''b'', ''ab''] [])))
   = Inr \<lparr>unfollowers = [SStr ''ab'', SStr ''b''],
          not_following_back = [SStr ''b'', SStr ''d''],
          recently_unfollowed = [], blocked_users = [], pending_requests = []\<rparr>"
  by (simp add: analyze_new_ok [OF export_guards export_acda_dadb export_optional]
      export_guards export_cbabab diff_defs)

section \<open>The size guard\<close>

text \<open>
  C7: the size guard adds up the declared sizes of the members, never their bytes: two
  archives with the same declared sizes get the same verdict, whatever their members hold.
  The ceiling is 50 MiB. An archive whose declared sizes add up to exactly the ceiling
  passes the guard; one whose sum is one byte more does not, and the analysis fails with the
  size error of the new archive, or, when it is the old archive of an analysis whose new
  archive is fine, with the size error of the old archive.
\<close>

theorem size_guard_boundary:
  "MAX_SIZE = 50 * 2 ^ 20
   \<and> (map file_size z1 = map file_size z2 \<longrightarrow> is_zip_safe (Archive z1) = is_zip_safe (Archive z2))
   \<and> (sum_list (map file_size exact) = MAX_SIZE \<longrightarrow> is_zip_safe (Archive exact) = Inr True)
   \<and> (sum_list (map file_size over) = MAX_SIZE + 1 \<longrightarrow>
        is_zip_safe (Archive over) = Inr False
      \<and> analyze_zip_files py (Archive over) old_zip
          = Inl (HTTPException 400 New_zip_size_exceeded)
      \<and> (analyze_zip_files py new_bytes None = Inr r \<longrightarrow>
           analyze_zip_files py new_bytes (Some (Archive over))
             = Inl (HTTPException 400 Old_zip_size_exceeded)))"
proof -
  have old: "analyze_zip_files py new_bytes (Some (Archive over))
             = Inl (HTTPException 400 Old_zip_size_exceeded)"
    if over: "sum_list (map file_size over) = MAX_SIZE + 1"
      and ok: "analyze_zip_files py new_bytes None = Inr r"
  proof -
    from ok obtain nf ng ru bu pr where
      "is_zip_safe new_bytes = Inr True" "has_too_many_files new_bytes = Inr False"
      "has_dangerous_files new_bytes = Inr False"
      "extract_usernames_from_zip new_bytes = Inr (nf, ng)"
      "extract_recently_unfollowed new_bytes = Inr ru"
      "extract_blocked_users new_bytes = Inr bu"
      "extract_pending_requests new_bytes = Inr pr"
      by (rule analyze_None_new_stages)
    from analyze_new_ok [OF this] over show ?thesis
      by (simp add: is_zip_safe_def)
  qed
  have new: "analyze_zip_files py (Archive over) old_zip
      = Inl (HTTPException 400 New_zip_size_exceeded)"
    if "sum_list (map file_size over) = MAX_SIZE + 1"
    using that by (simp add: analyze_zip_files_def is_zip_safe_def)
  have ceiling: "MAX_SIZE = 50 * 2 ^ 20"
    by (simp add: MAX_SIZE_def)
  show ?thesis
    using old new ceiling by (simp add: is_zip_safe_def)
qed

theorem size_guard_boundary_witness:
  "map file_size (sized 100 @ sized 100) = map file_size (export [''a''] [''b''])
   \<and> is_zip_safe (Archive (sized 100 @ sized 100)) = is_zip_safe (Archive (export [''a''] [''b'']))
   \<and> sum_list (map file_size (export [''a''] [''b''] @ sized 52428600)) = MAX_SIZE
   \<and> is_zip_safe (Archive (export [''a''] [''b''] @ sized 52428600)) = Inr True
   \<and> analyze_zip_files insertion_order (Archive (export [''a''] [''b''] @ sized 52428600)) None
       = Inr \<lparr>unfollowers = [], not_following_back = [SStr ''b''], recently_unfollowed = [],
              blocked_users = [], pending_requests = []\<rparr>
   \<and> sum_list (map file_size (export [''a''] [''b''] @ sized 52428601)) = MAX_SIZE + 1
   \<and> is_zip_safe (Archive (export [''a''] [''b''] @ sized 52428601)) = Inr False
   \<and> analyze_zip_files insertion_order (Archive (export [''a''] [''b''] @ sized 52428601)) None
       = Inl (HTTPException 400 New_zip_size_exceeded)
   \<and> analyze_zip_files insertion_order (Archive (export [''a'', ''b'', ''c''] [''a'', ''d''])) None
       = Inr \<lparr>unfollowers = [], not_following_back = [SStr ''d''], recently_unfollowed = [],
              blocked_users = [], pending_requests = []\<rparr>
   \<and> analyze_zip_files insertion_order (Archive (export [''a'', ''b'', ''c''] [''a'', ''d'']))
         (Some (Archive (export [''a''] [''b''] @ sized 52428601)))
       = Inl (HTTPException 400 Old_zip_size_exceeded)"
proof -
  have same: "map file_size (sized 100 @ sized 100) = map file_size (export [''a''] [''b''])"
    by (simp add: example_defs)
  have exact: "sum_list (map file_size (export [''a''] [''b''] @ sized 52428600)) = MAX_SIZE"
    by (simp add: example_defs MAX_SIZE_def)
  have over: "sum_list (map file_size (export [''a''] [''b''] @ sized 52428601)) = MAX_SIZE + 1"
    by (simp add: example_defs MAX_SIZE_def)
  have guards:
    "is_zip_safe (Archive (export [''a''] [''b''] @ sized 52428600)) = Inr True"
    "has_too_many_files (Archive (export [''a''] [''b''] @ sized 52428600)) = Inr False"
    "has_dangerous_files (Archive (export [''a''] [''b''] @ sized 52428600)) = Inr False"
    by (simp_all add: guard_defs example_defs)
  have sets: "extract_usernames_from_zip (Archive (export [''a''] [''b''] @ sized 52428600))
      = Inr ([SStr ''a''], [SStr ''b''])"
    by (simp add: extract_defs example_defs)
  have optional:
    "extract_recently_unfollowed (Archive (export [''a''] [''b''] @ sized 52428600)) = Inr []"
    "extract_blocked_users (Archive (export [''a''] [''b''] @ sized 52428600)) = Inr []"
    "extract_pending_requests (Archive (export [''a''] [''b''] @ sized 52428600)) = Inr []"
    by (simp_all add: extract_defs example_defs)
  have passes: "analyze_zip_files insertion_order (Archive (export [''a''] [''b''] @ sized 52428600)) None
       = Inr \<lparr>unfollowers = [], not_following_back = [SStr ''b''], recently_unfollowed = [],
              blocked_users = [], pending_requests = []\<rparr>"
    by (simp add: analyze_new_ok [OF guards sets optional] diff_defs)
  note boundary = size_guard_boundary
    [where ?z1.0 = "sized 100 @ sized 100" and ?z2.0 = "export [''a''] [''b'']"
       and exact = "export [''a''] [''b''] @ sized 52428600"
       and over = "export [''a''] [''b''] @ sized 52428601"
       and py = insertion_order and old_zip = None
       and new_bytes = "Archive (export [''a'', ''b'', ''c''] [''a'', ''d''])"]
  from boundary same exact over analyze_abc_ad passes show ?thesis
    by simp
qed

section \<open>Unreadable uploads\<close>

text \<open>
  C4, as the specification states it: an upload that is no archive at all gives a typed
  client error of its own. It does not: the analysis of such an upload ends with the
  \<^verbatim>\<open>BadZipFile\<close> of \<^verbatim>\<open>zipfile\<close>, which is no \<^verbatim>\<open>HTTPException\<close>, and the caller
  gets the status 500 of a server fault.
\<close>

theorem corrupt_upload_counterexample:
  "analyze_zip_files insertion_order Corrupt None = Inl BadZipFile
   \<and> response_status (analyze_zip_files insertion_order Corrupt None) = 500"
  by (simp add: analyze_zip_files_def is_zip_safe_def response_status_def)

text \<open>
  C4, amended: the analysis has no error of its own for an unreadable archive, and none
  of its functions catches \<^verbatim>\<open>BadZipFile\<close>. Each of the seven functions that open the
  upload raises it on an upload that is no archive. So the analysis of a new upload that is
  no archive ends with this exception, whatever the old upload is, and so does the
  analysis of an old upload that is no archive, when the new archive alone is analysed
  successfully; the caller gets the status 500 of a server fault, not a client error.
\<close>

theorem corrupt_upload_raises_BadZipFile:
  "is_zip_safe Corrupt = Inl BadZipFile
   \<and> has_too_many_files Corrupt = Inl BadZipFile
   \<and> has_dangerous_files Corrupt = Inl BadZipFile
   \<and> extract_usernames_from_zip Corrupt = Inl BadZipFile
   \<and> extract_recently_unfollowed Corrupt = Inl BadZipFile
   \<and> extract_blocked_users Corrupt = Inl BadZipFile
   \<and> extract_pending_requests Corrupt = Inl BadZipFile
   \<and> analyze_zip_files py Corrupt old_zip = Inl BadZipFile
   \<and> response_status (Inl BadZipFile) = 500
   \<and> (analyze_zip_files py new_bytes None = Inr r \<longrightarrow>
        analyze_zip_files py new_bytes (Some Corrupt) = Inl BadZipFile)"
proof -
  have old: "analyze_zip_files py new_bytes (Some Corrupt) = Inl BadZipFile"
    if ok: "analyze_zip_files py new_bytes None = Inr r"
  proof -
    from ok obtain nf ng ru bu pr where
      "is_zip_safe new_bytes = Inr True" "has_too_many_files new_bytes = Inr False"
      "has_dangerous_files new_bytes = Inr False"
      "extract_usernames_from_zip new_bytes = Inr (nf, ng)"
      "extract_recently_unfollowed new_bytes = Inr ru"
      "extract_blocked_users new_bytes = Inr bu"
      "extract_pending_requests new_bytes = Inr pr"
      by (rule analyze_None_new_stages)
    from analyze_new_ok [OF this] show ?thesis
      by (simp add: is_zip_safe_def)
  qed
  have new: "analyze_zip_files py Corrupt old_zip = Inl BadZipFile"
    by (simp add: analyze_zip_files_def is_zip_safe_def)
  show ?thesis
    using old new
    by (simp add: is_zip_safe_def has_too_many_files_def has_dangerous_files_def
        extract_usernames_from_zip_def extract_recently_unfollowed_def
        extract_blocked_users_def extract_pending_requests_def response_status_def)
qed

theorem corrupt_upload_raises_BadZipFile_witness:
  "analyze_zip_files reverse_order Corrupt (Some (Archive (export [''a''] [''b'']))) = Inl BadZipFile
   \<and> analyze_zip_files insertion_order (Archive (export [''a'', ''b'', ''c''] [''a'', ''d''])) None
       = Inr \<lparr>unfollowers = [], not_following_back = [SStr ''d''], recently_unfollowed = [],
              blocked_users = [], pending_requests = []\<rparr>
   \<and> analyze_zip_files insertion_order (Archive (export [''a'', ''b'', ''c''] [''a'', ''d''])) (Some Corrupt)
       = Inl BadZipFile
   \<and> response_status
        (analyze_zip_files insertion_order (Archive (export [''a'', ''b'', ''c''] [''a'', ''d''])) (Some Corrupt))
       = 500"
proof -
  note new = corrupt_upload_raises_BadZipFile
    [where py = reverse_order and old_zip = "Some (Archive (export [''a''] [''b'']))"]
  note old = corrupt_upload_raises_BadZipFile
    [where py = insertion_order and new_bytes = "Archive (export [''a'', ''b'', ''c''] [''a'', ''d''])"]
  from new old analyze_abc_ad show ?thesis
    by simp
qed

section \<open>Missing required documents\<close>

text \<open>
  C6, as the specification states it: the error for a missing required document names
  the document that is absent. It does not: an archive without the following document and
  an archive without the followers document get the same exception, with the same text.
\<close>

theorem missing_document_counterexample:
  "analyze_zip_files insertion_order (Archive [followers_member [''a'']]) None
     = Inl (HTTPException 400 Followers_or_following_missing)
   \<and> analyze_zip_files insertion_order (Archive [following_member [''a'']]) None
     = Inl (HTTPException 400 Followers_or_following_missing)"
  by (simp add: analyze_zip_files_def guard_defs example_defs extract_defs)

text \<open>
  C6, amended: for every new archive that passes the three guards and in which no member
  name contains \<^verbatim>\<open>followers_1.json\<close> or no member name contains \<^verbatim>\<open>following.json\<close>,
  the analysis fails with a client error of status 400. The error is the same in both
  cases: its one text says that one of the two documents is missing, not which.
\<close>

theorem missing_required_document:
  assumes "is_zip_safe (Archive z) = Inr True"
    and "has_too_many_files (Archive z) = Inr False"
    and "has_dangerous_files (Archive z) = Inr False"
    and "\<not> list_ex (\<lambda>n. contains n ''followers_1.json'') (namelist z)
       \<or> \<not> list_ex (\<lambda>n. contains n ''following.json'') (namelist z)"
  shows "analyze_zip_files py (Archive z) old_zip
           = Inl (HTTPException 400 Followers_or_following_missing)
       \<and> response_status (analyze_zip_files py (Archive z) old_zip) = 400"
proof -
  from assms(4) have
    "find (\<lambda>n. contains n ''followers_1.json'') (namelist z) = None
     \<or> find (\<lambda>n. contains n ''following.json'') (namelist z) = None"
    by (auto simp: find_None_iff list_ex_iff)
  then have "extract_usernames_from_zip (Archive z)
      = Inl (HTTPException 400 Followers_or_following_missing)"
    by (auto simp: extract_usernames_from_zip_def falsy_path_def Let_def)
  with assms(1-3) show ?thesis
    by (simp add: analyze_zip_files_def response_status_def)
qed

theorem missing_required_document_witness:
  "is_zip_safe (Archive [followers_member [''a'']]) = Inr True
   \<and> has_too_many_files (Archive [followers_member [''a'']]) = Inr False
   \<and> has_dangerous_files (Archive [followers_member [''a'']]) = Inr False
   \<and> list_ex (\<lambda>n. contains n ''followers_1.json'') (namelist [followers_member [''a'']])
   \<and> \<not> list_ex (\<lambda>n. contains n ''following.json'') (namelist [followers_member [''a'']])
   \<and> analyze_zip_files insertion_order (Archive [followers_member [''a'']]) (Some Corrupt)
           = Inl (HTTPException 400 Followers_or_following_missing)
   \<and> response_status (analyze_zip_files insertion_order (Archive [followers_member [''a'']]) (Some Corrupt))
           = 400"
proof -
  have g: "is_zip_safe (Archive [followers_member [''a'']]) = Inr True"
    "has_too_many_files (Archive [followers_member [''a'']]) = Inr False"
    "has_dangerous_files (Archive [followers_member [''a'']]) = Inr False"
    by (simp_all add: guard_defs example_defs)
  have present: "list_ex (\<lambda>n. contains n ''followers_1.json'')
      (namelist [followers_member [''a'']])"
    by (simp add: namelist_def example_defs)
  have absent: "\<not> list_ex (\<lambda>n. contains n ''following.json'')
      (namelist [followers_member [''a'']])"
    by (simp add: namelist_def example_defs)
  from absent have m:
    "\<not> list_ex (\<lambda>n. contains n ''followers_1.json'') (namelist [followers_member [''a'']])
     \<or> \<not> list_ex (\<lambda>n. contains n ''following.json'') (namelist [followers_member [''a'']])"
    by (rule disjI2)
  from missing_required_document [OF g m, of insertion_order "Some Corrupt"] g present absent show ?thesis
    by (simp add: response_status_def)
qed

section \<open>Malformed optional documents\<close>

lemma analyze_Inr_optional:
  assumes "analyze_zip_files py new_bytes old_zip = Inr r"
  shows "extract_recently_unfollowed new_bytes = Inr (recently_unfollowed r)"
    and "extract_blocked_users new_bytes = Inr (blocked_users r)"
    and "extract_pending_requests new_bytes = Inr (pending_requests r)"
  using analyze_Inr_D [OF assms] by auto

text \<open>
  C5, as the specification states it: an optional document that is present with a syntax
  error gives the empty sequence, and the analysis succeeds. It does not: with a malformed
  \<^verbatim>\<open>recently_unfollowed_profiles.json\<close> in an otherwise valid export the extractor raises
  \<^verbatim>\<open>JSONDecodeError\<close>, and so does the analysis.
\<close>

theorem malformed_optional_counterexample:
  "extract_recently_unfollowed
     (Archive (export [''a''] [''a'']
        @ [optional_member ''recently_unfollowed_profiles.json'' Malformed]))
     = Inl JSONDecodeError
   \<and> analyze_zip_files insertion_order
     (Archive (export [''a''] [''a'']
        @ [optional_member ''recently_unfollowed_profiles.json'' Malformed])) None
     = Inl JSONDecodeError"
proof -
  have "extract_recently_unfollowed
     (Archive (export [''a''] [''a'']
        @ [optional_member ''recently_unfollowed_profiles.json'' Malformed]))
     = Inl JSONDecodeError"
    by (simp add: extract_defs example_defs)
  moreover have "extract_usernames_from_zip
     (Archive (export [''a''] [''a'']
        @ [optional_member ''recently_unfollowed_profiles.json'' Malformed]))
     = Inr ([SStr ''a''], [SStr ''a''])"
    by (simp add: extract_defs example_defs)
  ultimately show ?thesis
    by (simp add: analyze_zip_files_def guard_defs example_defs)
qed

text \<open>
  C5, amended: the three optional extractors catch \<^verbatim>\<open>KeyError\<close> only. When the optional
  document is present and its JSON is malformed, the extractor raises
  \<^verbatim>\<open>JSONDecodeError\<close> and the analysis does not succeed; it ends with that exception
  when the document is \<^verbatim>\<open>recently_unfollowed_profiles.json\<close> and the guards and the
  extraction of the required documents have succeeded. Only the absence of the path gives
  the empty sequence.
\<close>

theorem malformed_optional_document_raises:
  "(zip_open z ''connections/followers_and_following/recently_unfollowed_profiles.json''
        = Inr Malformed \<longrightarrow>
      extract_recently_unfollowed (Archive z) = Inl JSONDecodeError
    \<and> (\<forall>r. analyze_zip_files py (Archive z) old_zip \<noteq> Inr r)
    \<and> (is_zip_safe (Archive z) = Inr True \<and> has_too_many_files (Archive z) = Inr False
       \<and> has_dangerous_files (Archive z) = Inr False
       \<and> extract_usernames_from_zip (Archive z) = Inr p \<longrightarrow>
         analyze_zip_files py (Archive z) old_zip = Inl JSONDecodeError))
   \<and> (zip_open z ''connections/followers_and_following/blocked_profiles.json''
        = Inr Malformed \<longrightarrow>
      extract_blocked_users (Archive z) = Inl JSONDecodeError
    \<and> (\<forall>r. analyze_zip_files py (Archive z) old_zip \<noteq> Inr r))
   \<and> (zip_open z ''connections/followers_and_following/pending_follow_requests.json''
        = Inr Malformed \<longrightarrow>
      extract_pending_requests (Archive z) = Inl JSONDecodeError
    \<and> (\<forall>r. analyze_zip_files py (Archive z) old_zip \<noteq> Inr r))
   \<and> (zip_open a ''connections/followers_and_following/recently_unfollowed_profiles.json''
        = Inl KeyError \<longrightarrow> extract_recently_unfollowed (Archive a) = Inr [])
   \<and> (zip_open a ''connections/followers_and_following/blocked_profiles.json''
        = Inl KeyError \<longrightarrow> extract_blocked_users (Archive a) = Inr [])
   \<and> (zip_open a ''connections/followers_and_following/pending_follow_requests.json''
        = Inl KeyError \<longrightarrow> extract_pending_requests (Archive a) = Inr [])"
proof -
  have recently: "extract_recently_unfollowed (Archive z) = Inl JSONDecodeError"
    if "zip_open z ''connections/followers_and_following/recently_unfollowed_profiles.json''
        = Inr Malformed"
    using that by (simp add: extract_recently_unfollowed_def json_load_def except_KeyError_def)
  have blocked: "extract_blocked_users (Archive z) = Inl JSONDecodeError"
    if "zip_open z ''connections/followers_and_following/blocked_profiles.json''
        = Inr Malformed"
    using that by (simp add: extract_blocked_users_def json_load_def except_KeyError_def)
  have pending: "extract_pending_requests (Archive z) = Inl JSONDecodeError"
    if "zip_open z ''connections/followers_and_following/pending_follow_requests.json''
        = Inr Malformed"
    using that by (simp add: extract_pending_requests_def json_load_def except_KeyError_def)
  have fails: "analyze_zip_files py (Archive z) old_zip \<noteq> Inr r"
    if "extract_recently_unfollowed (Archive z) = Inl JSONDecodeError
        \<or> extract_blocked_users (Archive z) = Inl JSONDecodeError
        \<or> extract_pending_requests (Archive z) = Inl JSONDecodeError" for r
    using that analyze_Inr_optional [of py "Archive z" old_zip r] by auto
  have ends: "analyze_zip_files py (Archive z) old_zip = Inl JSONDecodeError"
    if "extract_recently_unfollowed (Archive z) = Inl JSONDecodeError"
      and "is_zip_safe (Archive z) = Inr True" and "has_too_many_files (Archive z) = Inr False"
      and "has_dangerous_files (Archive z) = Inr False"
      and "extract_usernames_from_zip (Archive z) = Inr p"
    using that by (cases p) (simp add: analyze_zip_files_def)
  have absent:
    "zip_open a ''connections/followers_and_following/recently_unfollowed_profiles.json''
        = Inl KeyError \<Longrightarrow> extract_recently_unfollowed (Archive a) = Inr []"
    "zip_open a ''connections/followers_and_following/blocked_profiles.json''
        = Inl KeyError \<Longrightarrow> extract_blocked_users (Archive a) = Inr []"
    "zip_open a ''connections/followers_and_following/pending_follow_requests.json''
        = Inl KeyError \<Longrightarrow> extract_pending_requests (Archive a) = Inr []"
    by (simp_all add: extract_recently_unfollowed_def extract_blocked_users_def
        extract_pending_requests_def except_KeyError_def)
  show ?thesis
    using recently blocked pending fails ends absent by blast
qed

theorem malformed_optional_document_raises_witness:
  "zip_open malformed_optionals
      ''connections/followers_and_following/recently_unfollowed_profiles.json'' = Inr Malformed
   \<and> zip_open malformed_optionals
      ''connections/followers_and_following/blocked_profiles.json'' = Inr Malformed
   \<and> zip_open malformed_optionals
      ''connections/followers_and_following/pending_follow_requests.json'' = Inr Malformed
   \<and> is_zip_safe (Archive malformed_optionals) = Inr True
   \<and> has_too_many_files (Archive malformed_optionals) = Inr False
   \<and> has_dangerous_files (Archive malformed_optionals) = Inr False
   \<and> extract_usernames_from_zip (Archive malformed_optionals)
       = Inr ([SStr ''a'', SStr ''b''], [SStr ''a'', SStr ''c''])
   \<and> extract_recently_unfollowed (Archive malformed_optionals) = Inl JSONDecodeError
   \<and> extract_blocked_users (Archive malformed_optionals) = Inl JSONDecodeError
   \<and> extract_pending_requests (Archive malformed_optionals) = Inl JSONDecodeError
   \<and> analyze_zip_files insertion_order (Archive malformed_optionals) None = Inl JSONDecodeError
   \<and> zip_open (export [''a''] [''b''])
      ''connections/followers_and_following/recently_unfollowed_profiles.json'' = Inl KeyError
   \<and> zip_open (export [''a''] [''b''])
      ''connections/followers_and_following/blocked_profiles.json'' = Inl KeyError
   \<and> zip_open (export [''a''] [''b''])
      ''connections/followers_and_following/pending_follow_requests.json'' = Inl KeyError
   \<and> extract_recently_unfollowed (Archive (export [''a''] [''b''])) = Inr []
   \<and> extract_blocked_users (Archive (export [''a''] [''b''])) = Inr []
   \<and> extract_pending_requests (Archive (export [''a''] [''b''])) = Inr []"
proof -
  have present:
    "zip_open malformed_optionals
      ''connections/followers_and_following/recently_unfollowed_profiles.json'' = Inr Malformed"
    "zip_open malformed_optionals
      ''connections/followers_and_following/blocked_profiles.json'' = Inr Malformed"
    "zip_open malformed_optionals
      ''connections/followers_and_following/pending_follow_requests.json'' = Inr Malformed"
    by (simp_all add: zip_open_def malformed_optionals_def example_defs)
  have guards:
    "is_zip_safe (Archive malformed_optionals) = Inr True"
    "has_too_many_files (Archive malformed_optionals) = Inr False"
    "has_dangerous_files (Archive malformed_optionals) = Inr False"
    by (simp_all add: guard_defs malformed_optionals_def example_defs)
  have names: "extract_usernames_from_zip (Archive malformed_optionals)
       = Inr ([SStr ''a'', SStr ''b''], [SStr ''a'', SStr ''c''])"
    by (simp add: extract_defs malformed_optionals_def example_defs)
  have absent:
    "zip_open (export [''a''] [''b''])
      ''connections/followers_and_following/recently_unfollowed_profiles.json'' = Inl KeyError"
    "zip_open (export [''a''] [''b''])
      ''connections/followers_and_following/blocked_profiles.json'' = Inl KeyError"
    "zip_open (export [''a''] [''b''])
      ''connections/followers_and_following/pending_follow_requests.json'' = Inl KeyError"
    by (simp_all add: zip_open_def example_defs)
  note malformed_optional_document_raises
    [where z = malformed_optionals and a = "export [''a''] [''b'']" and py = insertion_order
       and old_zip = None and p = "([SStr ''a'', SStr ''b''], [SStr ''a'', SStr ''c''])"]
  with present guards names absent show ?thesis
    by simp
qed

section \<open>The order of the stages\<close>

lemmas stage_defs = validate_new_def validate_old_def extract_snapshot_def
  extract_old_followers_def diff_def assemble_def

lemma bind_exn_assoc: "bind_exn (bind_exn m f) g = bind_exn m (\<lambda>x. bind_exn (f x) g)"
  by (cases m) simp_all

lemma bind_exn_if: "bind_exn (if c then Inl e else m) f = (if c then Inl e else bind_exn m f)"
  by simp

lemma bind_exn_case_prod:
  "bind_exn (case p of (a, b) \<Rightarrow> f a b) g = (case p of (a, b) \<Rightarrow> bind_exn (f a b) g)"
  by (cases p) simp

text \<open>
  C3, as the specification states it: both archives are validated before any entry of
  either is parsed, and the first error of that sequence is returned. It is not so: with a
  new archive whose followers document is malformed and an old archive that is one byte
  too large, the sequence of the specification ends with the size error of the old
  archive, and the handler with the \<^verbatim>\<open>JSONDecodeError\<close> of the new archive's
  document, which it has parsed before it looks at the old archive.
\<close>

theorem stage_order_counterexample:
  "sequence_of_specification insertion_order (Archive malformed_followers_export)
       (Some (Archive (sized 52428801)))
     = Inl (HTTPException 400 Old_zip_size_exceeded)
   \<and> analyze_zip_files insertion_order (Archive malformed_followers_export)
       (Some (Archive (sized 52428801)))
     = Inl JSONDecodeError"
proof -
  have guards:
    "is_zip_safe (Archive malformed_followers_export) = Inr True"
    "has_too_many_files (Archive malformed_followers_export) = Inr False"
    "has_dangerous_files (Archive malformed_followers_export) = Inr False"
    by (simp_all add: guard_defs malformed_followers_export_def example_defs)
  have old: "is_zip_safe (Archive (sized 52428801)) = Inr False"
    by (simp add: guard_defs example_defs)
  have parsed: "extract_usernames_from_zip (Archive malformed_followers_export)
      = Inl JSONDecodeError"
    by (simp add: extract_defs malformed_followers_export_def example_defs)
  show ?thesis
    by (simp add: sequence_of_specification_def analyze_zip_files_def stage_defs
        guards old parsed)
qed

text \<open>
  C3, amended: the stages run in the order validate(new), extractSnapshot(new) with its
  optional extractions, then, when an old archive is supplied, validate(old) and the
  extraction from the old archive, then diff; the first error in that sequence is
  returned, and a result only when every stage has succeeded. The guards read names and
  declared sizes only, so the guards of an archive are done before any entry of that
  archive is parsed; but the entries of the new archive are parsed before the old archive
  is validated. Whenever the old archive passes its guards, or none is supplied, the
  outcome is that of the specified order.
\<close>

theorem stages_run_in_handler_order:
  "analyze_zip_files py new_bytes old_zip = sequence_of_handler py new_bytes old_zip
   \<and> (map filename z = map filename z' \<and> map file_size z = map file_size z' \<longrightarrow>
        validate_new (Archive z) = validate_new (Archive z')
      \<and> validate_old (Archive z) = validate_old (Archive z'))
   \<and> ((case old_zip of None \<Rightarrow> True | Some old_bytes \<Rightarrow> validate_old old_bytes = Inr ()) \<longrightarrow>
        analyze_zip_files py new_bytes old_zip
          = sequence_of_specification py new_bytes old_zip)"
proof -
  have handler: "analyze_zip_files py new_bytes old_zip
      = sequence_of_handler py new_bytes old_zip"
    unfolding analyze_zip_files_def sequence_of_handler_def stage_defs
    by (cases old_zip)
      (simp_all add: bind_exn_assoc bind_exn_if bind_exn_case_prod split_def cong: if_cong)
  have guards: "validate_new (Archive z) = validate_new (Archive z')"
    "validate_old (Archive z) = validate_old (Archive z')"
    if "map filename z = map filename z'" "map file_size z = map file_size z'"
  proof -
    from that(1) have "length z = length z'"
      by (rule map_eq_imp_length_eq)
    with that show "validate_new (Archive z) = validate_new (Archive z')"
      "validate_old (Archive z) = validate_old (Archive z')"
      by (simp_all add: validate_new_def validate_old_def is_zip_safe_def
          has_too_many_files_def has_dangerous_files_def namelist_def)
  qed
  have specified: "sequence_of_handler py new_bytes old_zip
      = sequence_of_specification py new_bytes old_zip"
    if "case old_zip of None \<Rightarrow> True | Some old_bytes \<Rightarrow> validate_old old_bytes = Inr ()"
    using that unfolding sequence_of_handler_def sequence_of_specification_def
    by (cases old_zip; cases "validate_new new_bytes"; cases "extract_snapshot new_bytes")
      simp_all
  from handler guards specified show ?thesis
    by simp
qed

theorem stages_run_in_handler_order_witness:
  "map filename (export [''a''] [''b'']) = map filename (export [''c'', ''d''] [])
   \<and> map file_size (export [''a''] [''b'']) = map file_size (export [''c'', ''d''] [])
   \<and> validate_new (Archive (export [''a''] [''b''])) = validate_new (Archive (export [''c'', ''d''] []))
   \<and> validate_old (Archive (export [''c'', ''b'', ''a'', ''b'', ''ab''] [])) = Inr ()
   \<and> sequence_of_specification reverse_order
        (Archive (export [''a'', ''c'', ''a''] [''d'', ''a'', ''d'', ''b'']))
        (Some (Archive (export [''c'', ''b'', ''a'', ''b'', ''ab''] [])))
      = Inr \<lparr>unfollowers = [SStr ''ab'', SStr ''b''],
             not_following_back = [SStr ''b'', SStr ''d''],
             recently_unfollowed = [], blocked_users = [], pending_requests = []\<rparr>
   \<and> sequence_of_handler reverse_order
        (Archive (export [''a'', ''c'', ''a''] [''d'', ''a'', ''d'', ''b'']))
        (Some (Archive (export [''c'', ''b'', ''a'', ''b'', ''ab''] [])))
      = Inr \<lparr>unfollowers = [SStr ''ab'', SStr ''b''],
             not_following_back = [SStr ''b'', SStr ''d''],
             recently_unfollowed = [], blocked_users = [], pending_requests = []\<rparr>"
proof -
  have names: "map filename (export [''a''] [''b'']) = map filename (export [''c'', ''d''] [])"
    and sizes: "map file_size (export [''a''] [''b'']) = map file_size (export [''c'', ''d''] [])"
    by (simp_all add: example_defs)
  have old: "validate_old (Archive (export [''c'', ''b'', ''a'', ''b'', ''ab''] [])) = Inr ()"
    by (simp add: validate_old_def export_guards)
  note order = stages_run_in_handler_order
    [where py = reverse_order
       and new_bytes = "Archive (export [''a'', ''c'', ''a''] [''d'', ''a'', ''d'', ''b''])"
       and old_zip = "Some (Archive (export [''c'', ''b'', ''a'', ''b'', ''ab''] []))"
       and z = "export [''a''] [''b'']" and z' = "export [''c'', ''d''] []"]
  have passes: "case Some (Archive (export [''c'', ''b'', ''a'', ''b'', ''ab''] [])) of
      None \<Rightarrow> True | Some old_bytes \<Rightarrow> validate_old old_bytes = Inr ()"
    using old by simp
  note handler = order [THEN conjunct1]
  note guards = order [THEN conjunct2, THEN conjunct1, THEN mp, OF conjI [OF names sizes],
      THEN conjunct1]
  note specified = order [THEN conjunct2, THEN conjunct2, THEN mp, OF passes]
  from handler [symmetric] specified [symmetric] guards names sizes old analyze_rev_example
  show ?thesis
    by simp
qed

section \<open>What is read of the old archive\<close>

text \<open>
  C2, as the specification states it: the following document of the old archive is not
  read, so its absence or its contents never cause an error. They do: with the same new
  archive and the same old followers, the analysis succeeds when the old archive has a
  following document, fails with the error for a missing document when it has none, and
  fails with \<^verbatim>\<open>JSONDecodeError\<close> when that document is malformed.
\<close>

theorem old_following_counterexample:
  "analyze_zip_files insertion_order (Archive (export [''a''] [''a''])) (Some (Archive (export [''a'', ''b''] [])))
     = Inr \<lparr>unfollowers = [SStr ''b''], not_following_back = [], recently_unfollowed = [],
            blocked_users = [], pending_requests = []\<rparr>
   \<and> analyze_zip_files insertion_order (Archive (export [''a''] [''a'']))
       (Some (Archive [followers_member [''a'', ''b'']]))
     = Inl (HTTPException 400 Followers_or_following_missing)
   \<and> analyze_zip_files insertion_order (Archive (export [''a''] [''a'']))
       (Some (Archive malformed_following_export))
     = Inl JSONDecodeError"
proof -
  have new: "extract_usernames_from_zip (Archive (export [''a''] [''a'']))
      = Inr ([SStr ''a''], [SStr ''a''])"
    by (simp add: extract_defs example_defs)
  note rest = analyze_new_ok [OF export_guards new export_optional]
  have old1: "extract_usernames_from_zip (Archive (export [''a'', ''b''] []))
      = Inr ([SStr ''a'', SStr ''b''], [])"
    by (simp add: extract_defs example_defs)
  have guards2:
    "is_zip_safe (Archive [followers_member [''a'', ''b'']]) = Inr True"
    "has_too_many_files (Archive [followers_member [''a'', ''b'']]) = Inr False"
    "has_dangerous_files (Archive [followers_member [''a'', ''b'']]) = Inr False"
    by (simp_all add: guard_defs example_defs)
  have old2: "extract_usernames_from_zip (Archive [followers_member [''a'', ''b'']])
      = Inl (HTTPException 400 Followers_or_following_missing)"
    by (simp add: extract_defs example_defs)
  have guards3:
    "is_zip_safe (Archive malformed_following_export) = Inr True"
    "has_too_many_files (Archive malformed_following_export) = Inr False"
    "has_dangerous_files (Archive malformed_following_export) = Inr False"
    by (simp_all add: guard_defs malformed_following_export_def example_defs)
  have old3: "extract_usernames_from_zip (Archive malformed_following_export)
      = Inl JSONDecodeError"
    by (simp add: extract_defs malformed_following_export_def example_defs)
  show ?thesis
    by (simp add: rest export_guards old1 guards2 old2 guards3 old3 diff_defs)
qed

text \<open>
  C2, amended: the handler calls \<^verbatim>\<open>extract_usernames_from_zip\<close> on the old archive and
  keeps the followers only. The optional documents of the old archive are never read, and
  the following set extracted from it is dropped: two old archives with the same verdicts
  of the three guards and the same extracted followers give the same outcome, whatever
  else they hold. But the following document of the old archive is located and parsed: when
  the extraction from the old archive fails (the document is absent or malformed, say),
  the analysis fails with that error, once the new archive is through and the old one has
  passed its guards.
\<close>

theorem old_archive_gives_followers_only:
  "(is_zip_safe old1 = is_zip_safe old2
     \<and> has_too_many_files old1 = has_too_many_files old2
     \<and> has_dangerous_files old1 = has_dangerous_files old2
     \<and> extract_usernames_from_zip old1 = Inr (followers, following1)
     \<and> extract_usernames_from_zip old2 = Inr (followers, following2) \<longrightarrow>
       analyze_zip_files py new_bytes (Some old1)
         = analyze_zip_files py new_bytes (Some old2))
   \<and> (analyze_zip_files py new_bytes None = Inr r
     \<and> is_zip_safe old = Inr True \<and> has_too_many_files old = Inr False
     \<and> has_dangerous_files old = Inr False
     \<and> extract_usernames_from_zip old = Inl e \<longrightarrow>
       analyze_zip_files py new_bytes (Some old) = Inl e)"
proof -
  have same: "analyze_zip_files py new_bytes (Some old1)
         = analyze_zip_files py new_bytes (Some old2)"
    if "is_zip_safe old1 = is_zip_safe old2"
      "has_too_many_files old1 = has_too_many_files old2"
      "has_dangerous_files old1 = has_dangerous_files old2"
      "extract_usernames_from_zip old1 = Inr (followers, following1)"
      "extract_usernames_from_zip old2 = Inr (followers, following2)"
    using that by (simp add: analyze_zip_files_def cong: if_cong)
  have fails: "analyze_zip_files py new_bytes (Some old) = Inl e"
    if ok: "analyze_zip_files py new_bytes None = Inr r"
      and old: "is_zip_safe old = Inr True" "has_too_many_files old = Inr False"
        "has_dangerous_files old = Inr False" "extract_usernames_from_zip old = Inl e"
  proof -
    from ok obtain nf ng ru bu pr where
      "is_zip_safe new_bytes = Inr True" "has_too_many_files new_bytes = Inr False"
      "has_dangerous_files new_bytes = Inr False"
      "extract_usernames_from_zip new_bytes = Inr (nf, ng)"
      "extract_recently_unfollowed new_bytes = Inr ru"
      "extract_blocked_users new_bytes = Inr bu"
      "extract_pending_requests new_bytes = Inr pr"
      by (rule analyze_None_new_stages)
    from analyze_new_ok [OF this] old show ?thesis
      by simp
  qed
  from same fails show ?thesis
    by blast
qed

theorem old_archive_gives_followers_only_witness:
  "is_zip_safe (Archive (export [''c'', ''b'', ''a'', ''b'', ''ab''] []))
     = is_zip_safe (Archive (export [''c'', ''b'', ''a'', ''ab''] [''x'', ''y'']
         @ [optional_member ''blocked_profiles.json'' Malformed]))
   \<and> extract_usernames_from_zip (Archive (export [''c'', ''b'', ''a'', ''b'', ''ab''] []))
     = Inr ([SStr ''c'', SStr ''b'', SStr ''a'', SStr ''ab''], [])
   \<and> extract_usernames_from_zip (Archive (export [''c'', ''b'', ''a'', ''ab''] [''x'', ''y'']
         @ [optional_member ''blocked_profiles.json'' Malformed]))
     = Inr ([SStr ''c'', SStr ''b'', SStr ''a'', SStr ''ab''], [SStr ''x'', SStr ''y''])
   \<and> analyze_zip_files reverse_order
       (Archive (export [''a'', ''c'', ''a''] [''d'', ''a'', ''d'', ''b'']))
       (Some (Archive (export [''c'', ''b'', ''a'', ''ab''] [''x'', ''y'']
         @ [optional_member ''blocked_profiles.json'' Malformed])))
     = Inr \<lparr>unfollowers = [SStr ''ab'', SStr ''b''],
            not_following_back = [SStr ''b'', SStr ''d''],
            recently_unfollowed = [], blocked_users = [], pending_requests = []\<rparr>
   \<and> analyze_zip_files insertion_order (Archive (export [''a'', ''b'', ''c''] [''a'', ''d''])) None
       = Inr \<lparr>unfollowers = [], not_following_back = [SStr ''d''], recently_unfollowed = [],
              blocked_users = [], pending_requests = []\<rparr>
   \<and> extract_usernames_from_zip (Archive malformed_following_export) = Inl JSONDecodeError
   \<and> analyze_zip_files insertion_order (Archive (export [''a'', ''b'', ''c''] [''a'', ''d'']))
       (Some (Archive malformed_following_export))
       = Inl JSONDecodeError"
proof -
  let ?old1 = "Archive (export [''c'', ''b'', ''a'', ''b'', ''ab''] [])"
  let ?old2 = "Archive (export [''c'', ''b'', ''a'', ''ab''] [''x'', ''y'']
         @ [optional_member ''blocked_profiles.json'' Malformed])"
  have guards1: "is_zip_safe ?old1 = Inr True" "has_too_many_files ?old1 = Inr False"
    "has_dangerous_files ?old1 = Inr False"
    by (rule export_guards)+
  have guards2: "is_zip_safe ?old2 = Inr True" "has_too_many_files ?old2 = Inr False"
    "has_dangerous_files ?old2 = Inr False"
    by (simp_all add: guard_defs example_defs)
  have old2: "extract_usernames_from_zip ?old2
     = Inr ([SStr ''c'', SStr ''b'', SStr ''a'', SStr ''ab''], [SStr ''x'', SStr ''y''])"
    by (simp add: extract_defs example_defs)
  have guards3:
    "is_zip_safe (Archive malformed_following_export) = Inr True"
    "has_too_many_files (Archive malformed_following_export) = Inr False"
    "has_dangerous_files (Archive malformed_following_export) = Inr False"
    by (simp_all add: guard_defs malformed_following_export_def example_defs)
  have old3: "extract_usernames_from_zip (Archive malformed_following_export)
      = Inl JSONDecodeError"
    by (simp add: extract_defs malformed_following_export_def example_defs)
  note only = old_archive_gives_followers_only
    [where ?old1.0 = ?old1 and ?old2.0 = ?old2 and py = reverse_order
       and new_bytes = "Archive (export [''a'', ''c'', ''a''] [''d'', ''a'', ''d'', ''b''])",
     THEN conjunct1, THEN mp,
     OF conjI [OF _ conjI [OF _ conjI [OF _ conjI [OF export_cbabab old2]]]]]
  note fails = old_archive_gives_followers_only
    [where py = insertion_order and old = "Archive malformed_following_export"
       and new_bytes = "Archive (export [''a'', ''b'', ''c''] [''a'', ''d''])",
     THEN conjunct2, THEN mp,
     OF conjI [OF analyze_abc_ad conjI [OF guards3(1) conjI [OF guards3(2)
       conjI [OF guards3(3) old3]]]]]
  have same: "analyze_zip_files reverse_order
       (Archive (export [''a'', ''c'', ''a''] [''d'', ''a'', ''d'', ''b''])) (Some ?old1)
     = analyze_zip_files reverse_order
       (Archive (export [''a'', ''c'', ''a''] [''d'', ''a'', ''d'', ''b''])) (Some ?old2)"
    by (rule only) (simp_all add: guards1 guards2)
  from same [symmetric] fails analyze_rev_example analyze_abc_ad export_cbabab old2 old3
    guards1 guards2
  show ?thesis
    by simp
qed

section \<open>Sets and sorting\<close>


lemma py_key_num: "is_num x \<Longrightarrow> \<not> is_nan x \<Longrightarrow> py_key x = KNum (num_key x)"
  by (cases x rule: py_key.cases) simp_all


lemma is_str_SStr: "is_str x \<Longrightarrow> SStr (str_of x) = x"
  by (cases x) simp_all



text \<open>The elements of a set stay pairwise different.\<close>

lemma set_add_distinct:
  "set_add s v = Inr s' \<Longrightarrow> distinct (map py_key s) \<Longrightarrow> distinct (map py_key s')"
  by (cases "py_hashable v") (auto simp: set_add_def set_member_def split: if_splits)

lemma collect_entries_distinct:
  "collect_entries entries acc = Inr s \<Longrightarrow> distinct (map py_key acc)
   \<Longrightarrow> distinct (map py_key s)"
proof (induction entries arbitrary: acc)
  case Nil
  then show ?case by simp
next
  case (Cons entry entries)
  from Cons.prems(1) obtain v acc' where
    "set_add acc v = Inr acc'" "collect_entries entries acc' = Inr s"
    by (auto simp: bind_exn_eq_Inr)
  with Cons.IH [of acc'] Cons.prems(2) show ?case
    by (auto dest: set_add_distinct)
qed

lemma collect_items_distinct:
  "collect_items items acc = Inr s \<Longrightarrow> distinct (map py_key acc)
   \<Longrightarrow> distinct (map py_key s)"
proof (induction items arbitrary: acc)
  case Nil
  then show ?case by simp
next
  case (Cons item items)
  from Cons.prems(1) obtain entries acc' where
    "collect_entries entries acc = Inr acc'" "collect_items items acc' = Inr s"
    by (auto simp: bind_exn_eq_Inr)
  with Cons.IH [of acc'] Cons.prems(2) show ?case
    by (auto dest: collect_entries_distinct)
qed

lemma extract_usernames_distinct:
  assumes "extract_usernames_from_zip zip_bytes = Inr (followers, following)"
  shows "distinct (map py_key followers)" and "distinct (map py_key following)"
proof -
  from assms obtain items1 items2 where
    "collect_items items1 [] = Inr followers" "collect_items items2 [] = Inr following"
    by (cases zip_bytes)
      (auto simp: extract_usernames_from_zip_def Let_def bind_exn_eq_Inr split: if_splits)
  then show "distinct (map py_key followers)" and "distinct (map py_key following)"
    by (auto dest: collect_items_distinct)
qed

lemma set_difference_distinct:
  "distinct (map py_key a) \<Longrightarrow> distinct (map py_key (set_difference a b))"
  by (simp add: set_difference_def distinct_map_filter)


lemma set_difference_nan_free:
  "\<not> list_ex is_nan a \<Longrightarrow> \<not> list_ex is_nan (set_difference a b)"
  by (auto simp: set_difference_def list_ex_iff)

text \<open>
  Without a NaN, the result of \<^verbatim>\<open>sorted\<close> depends neither on the order in which the set
  is listed nor on the interpreter.
\<close>

lemma py_sorted_perm:
  assumes "mset ys = mset xs" and "distinct (map py_key xs)" and "\<not> list_ex is_nan xs"
  shows "py_sorted py ys = py_sorted py' xs"
proof -
  from assms(1) have len: "length ys = length xs" and set: "set ys = set xs"
    by (auto dest: mset_eq_length mset_eq_setD)
  from set assms(3) have nan: "\<not> list_ex is_nan ys"
    by (simp add: list_ex_iff)
  show ?thesis
  proof (cases "length xs \<le> 1")
    case True
    with assms(1) have "ys = xs"
      by (cases xs; cases ys) auto
    with True show ?thesis by (simp add: py_sorted_def)
  next
    case False
    have strs: "sort_key str_of ys = sort_key str_of xs" if "list_all is_str xs"
    proof (rule sort_key_inj_key_eq)
      show "mset ys = mset (sort_key str_of xs)"
        using assms(1) by simp
      from that set have "\<forall>x\<in>set ys. is_str x"
        by (simp add: list_all_iff)
      then show "inj_on str_of (set ys)"
        by (intro inj_onI) (metis is_str_SStr)
      show "sorted (map str_of (sort_key str_of xs))"
        by (rule sorted_sort_key)
    qed
    have nums: "sort_key num_key ys = sort_key num_key xs" if "list_all is_num xs"
    proof (rule sort_key_inj_key_eq)
      show "mset ys = mset (sort_key num_key xs)"
        using assms(1) by simp
      from that set nan have "\<forall>x\<in>set ys. is_num x \<and> \<not> is_nan x"
        by (auto simp: list_all_iff list_ex_iff)
      moreover from assms(2) set have "inj_on py_key (set ys)"
        by (simp add: distinct_map)
      ultimately show "inj_on num_key (set ys)"
        by (intro inj_onI) (metis py_key_num inj_onD)
      show "sorted (map num_key (sort_key num_key xs))"
        by (rule sorted_sort_key)
    qed
    from set have "list_all is_str ys = list_all is_str xs"
      "list_all is_num ys = list_all is_num xs"
      by (simp_all add: list_all_iff)
    with False len strs nums nan assms(3) show ?thesis
      by (simp add: py_sorted_def)
  qed
qed




lemma extract_usernames_distinct_both:
  "extract_usernames_from_zip zip_bytes = Inr (followers, following)
   \<Longrightarrow> distinct (map py_key followers) \<and> distinct (map py_key following)"
  by (simp add: extract_usernames_distinct)

lemma py_sorted_listing:
  assumes "\<forall>s. mset (list_of_set py1 s) = mset s" and "\<forall>s. mset (list_of_set py2 s) = mset s"
    and "distinct (map py_key a)" and "\<not> list_ex is_nan a"
  shows "py_sorted py1 (list_of_set py1 (set_difference a b))
       = py_sorted py2 (list_of_set py2 (set_difference a b))"
proof -
  from assms(3) have d: "distinct (map py_key (set_difference a b))"
    by (rule set_difference_distinct)
  from assms(4) have n: "\<not> list_ex is_nan (set_difference a b)"
    by (rule set_difference_nan_free)
  from assms(1) d n
  have "py_sorted py1 (list_of_set py1 (set_difference a b))
      = py_sorted py2 (set_difference a b)"
    by (intro py_sorted_perm) simp_all
  moreover from assms(2) d n
  have "py_sorted py2 (list_of_set py2 (set_difference a b))
      = py_sorted py2 (set_difference a b)"
    by (intro py_sorted_perm) simp_all
  ultimately show ?thesis by simp
qed



section \<open>The two differences\<close>



section \<open>Determinism\<close>

text \<open>
  C8, as the specification states it: the same two uploads always give the same result
  record. They do not: when the account follows the values 1 and NaN, an interpreter
  process that lists the set in one order returns them in that order, and a process that
  lists it in the other order returns them in the other, as NaN is neither less nor
  greater than 1. (Neither record can be rendered, so the caller gets the status 500 from
  both.)
\<close>

theorem deterministic_counterexample:
  "analyze_zip_files insertion_order (Archive nan_export) None
     = Inr \<lparr>unfollowers = [], not_following_back = [SNum 1, SFloat FNaN],
            recently_unfollowed = [], blocked_users = [], pending_requests = []\<rparr>
   \<and> analyze_zip_files reverse_order (Archive nan_export) None
     = Inr \<lparr>unfollowers = [], not_following_back = [SFloat FNaN, SNum 1],
            recently_unfollowed = [], blocked_users = [], pending_requests = []\<rparr>
   \<and> response_status (analyze_zip_files insertion_order (Archive nan_export) None) = 500
   \<and> response_status (analyze_zip_files reverse_order (Archive nan_export) None) = 500"
proof -
  have guards:
    "is_zip_safe (Archive nan_export) = Inr True"
    "has_too_many_files (Archive nan_export) = Inr False"
    "has_dangerous_files (Archive nan_export) = Inr False"
    by (simp_all add: guard_defs nan_export_def example_defs)
  have sets: "extract_usernames_from_zip (Archive nan_export)
      = Inr ([], [SNum 1, SFloat FNaN])"
    by (simp add: extract_defs nan_export_def example_defs)
  have optional:
    "extract_recently_unfollowed (Archive nan_export) = Inr []"
    "extract_blocked_users (Archive nan_export) = Inr []"
    "extract_pending_requests (Archive nan_export) = Inr []"
    by (simp_all add: extract_defs nan_export_def example_defs)
  note rest = analyze_new_ok [OF guards sets optional]
  have 1: "analyze_zip_files insertion_order (Archive nan_export) None
     = Inr \<lparr>unfollowers = [], not_following_back = [SNum 1, SFloat FNaN],
            recently_unfollowed = [], blocked_users = [], pending_requests = []\<rparr>"
    by (simp add: rest diff_defs)
  have 2: "analyze_zip_files reverse_order (Archive nan_export) None
     = Inr \<lparr>unfollowers = [], not_following_back = [SFloat FNaN, SNum 1],
            recently_unfollowed = [], blocked_users = [], pending_requests = []\<rparr>"
    by (simp add: rest diff_defs)
  show ?thesis
    by (simp add: 1 2 response_status_def result_compliant_def)
qed

text \<open>
  C8, amended: the handler reads its two uploads and the three constants of the module,
  and of the interpreter process it runs in only the order in which \<^verbatim>\<open>list\<close> enumerates
  a set and the way the list sort treats NaN. When no value collected from the two
  archives is NaN, and so whenever the values are account names, the outcome depends on
  neither: in any two interpreter processes the analysis of the same two uploads ends with
  the same result record, or with the same exception.
\<close>

theorem analysis_is_deterministic:
  assumes "\<forall>s. mset (list_of_set py_a s) = mset s"
    and "\<forall>s. mset (list_of_set py_b s) = mset s"
    and "nan_free_usernames new_bytes"
    and "case old_zip of None \<Rightarrow> True | Some old_bytes \<Rightarrow> nan_free_usernames old_bytes"
  shows "analyze_zip_files py_a new_bytes old_zip = analyze_zip_files py_b new_bytes old_zip"
proof (cases "extract_usernames_from_zip new_bytes")
  case (Inl e)
  then show ?thesis
    by (simp add: analyze_zip_files_def cong: if_cong)
next
  case (Inr sets)
  obtain nf ng where sets: "sets = (nf, ng)"
    by (cases sets)
  with Inr have new: "extract_usernames_from_zip new_bytes = Inr (nf, ng)"
    by simp
  with assms(3) have nan: "\<not> list_ex is_nan ng"
    by (simp add: nan_free_usernames_def)
  from new have "distinct (map py_key ng)"
    by (rule extract_usernames_distinct)
  with assms(1,2) nan
  have following: "py_sorted py_a (list_of_set py_a (set_difference ng nf))
      = py_sorted py_b (list_of_set py_b (set_difference ng nf))"
    by (intro py_sorted_listing)
  show ?thesis
  proof (cases old_zip)
    case None
    with new following show ?thesis
      by (simp add: analyze_zip_files_def cong: if_cong)
  next
    case (Some old_bytes)
    show ?thesis
    proof (cases "extract_usernames_from_zip old_bytes")
      case (Inl e)
      with Some new following show ?thesis
        by (simp add: analyze_zip_files_def cong: if_cong)
    next
      case old: (Inr old_sets)
      obtain ofs og where "old_sets = (ofs, og)"
        by (cases old_sets)
      with old have ex: "extract_usernames_from_zip old_bytes = Inr (ofs, og)"
        by simp
      with assms(4) Some have "\<not> list_ex is_nan ofs"
        by (simp add: nan_free_usernames_def)
      moreover from ex have "distinct (map py_key ofs)"
        by (rule extract_usernames_distinct)
      ultimately
      have "py_sorted py_a (list_of_set py_a (set_difference ofs nf))
          = py_sorted py_b (list_of_set py_b (set_difference ofs nf))"
        using assms(1,2) by (intro py_sorted_listing)
      with Some new following ex show ?thesis
        by (simp add: analyze_zip_files_def cong: if_cong)
    qed
  qed
qed

theorem analysis_is_deterministic_witness:
  "(\<forall>s. mset (list_of_set insertion_order s) = mset s)
   \<and> (\<forall>s. mset (list_of_set reverse_order s) = mset s)
   \<and> nan_free_usernames (Archive (export [''a'', ''c'', ''a''] [''d'', ''a'', ''d'', ''b'']))
   \<and> nan_free_usernames (Archive (export [''c'', ''b'', ''a'', ''b'', ''ab''] []))
   \<and> analyze_zip_files insertion_order
       (Archive (export [''a'', ''c'', ''a''] [''d'', ''a'', ''d'', ''b'']))
       (Some (Archive (export [''c'', ''b'', ''a'', ''b'', ''ab''] [])))
     = analyze_zip_files reverse_order
       (Archive (export [''a'', ''c'', ''a''] [''d'', ''a'', ''d'', ''b'']))
       (Some (Archive (export [''c'', ''b'', ''a'', ''b'', ''ab''] [])))
   \<and> analyze_zip_files insertion_order
       (Archive (export [''a'', ''c'', ''a''] [''d'', ''a'', ''d'', ''b'']))
       (Some (Archive (export [''c'', ''b'', ''a'', ''b'', ''ab''] [])))
     = Inr \<lparr>unfollowers = [SStr ''ab'', SStr ''b''],
            not_following_back = [SStr ''b'', SStr ''d''],
            recently_unfollowed = [], blocked_users = [], pending_requests = []\<rparr>"
proof -
  have a: "\<forall>s. mset (list_of_set insertion_order s) = mset s"
    and b: "\<forall>s. mset (list_of_set reverse_order s) = mset s"
    by (simp_all add: insertion_order_def reverse_order_def)
  have new: "nan_free_usernames
      (Archive (export [''a'', ''c'', ''a''] [''d'', ''a'', ''d'', ''b'']))"
    by (simp add: nan_free_usernames_def export_acda_dadb)
  have old: "nan_free_usernames (Archive (export [''c'', ''b'', ''a'', ''b'', ''ab''] []))"
    by (simp add: nan_free_usernames_def export_cbabab)
  have old': "case Some (Archive (export [''c'', ''b'', ''a'', ''b'', ''ab''] [])) of
      None \<Rightarrow> True | Some old_bytes \<Rightarrow> nan_free_usernames old_bytes"
    using old by simp
  note same = analysis_is_deterministic [OF a b new old']
  from same analyze_rev_example a b new old show ?thesis
    by (simp only: simp_thms)
qed

section \<open>A blocked-profiles record without title\<close>

lemma titles_KeyError:
  "list_all (\<lambda>rc. has_key rc ''title'') titled \<Longrightarrow> is_dict rc \<Longrightarrow> \<not> has_key rc ''title''
   \<Longrightarrow> titles (titled @ rc # others) = Inl KeyError"
proof (induction titled)
  case Nil
  then obtain kvs where "rc = JObj kvs"
    by (cases rc) simp_all
  with Nil show ?case
    by simp
next
  case (Cons t titled)
  from Cons.prems(1) obtain kvs v where "t = JObj kvs" "map_of kvs ''title'' = Some v"
    by (cases t) auto
  moreover from Cons have "titles (titled @ rc # others) = Inl KeyError"
    by simp
  ultimately show ?case
    by simp
qed

text \<open>
  C9, as the specification states it: whenever a record of \<^verbatim>\<open>relationships_blocked_users\<close>
  lacks a \<^verbatim>\<open>title\<close>, \<^verbatim>\<open>extract_blocked_users\<close> returns the empty list and the analysis
  succeeds. It does not when a record before it is not a dict: with the records
  \<^verbatim>\<open>[null, {}]\<close> the subscript of \<^verbatim>\<open>null\<close> raises a \<^verbatim>\<open>TypeError\<close>, which is not caught;
  the extractor and the analysis end with it, and the caller gets the status 500.
\<close>

theorem blocked_record_counterexample:
  "zip_open null_blocked_export ''connections/followers_and_following/blocked_profiles.json''
      = Inr (Document (JObj [(''relationships_blocked_users'', JArr [JNull, JObj []])]))
   \<and> is_dict (JObj [])
   \<and> \<not> has_key (JObj []) ''title''
   \<and> \<not> has_key JNull ''title''
   \<and> extract_blocked_users (Archive null_blocked_export) = Inl TypeError
   \<and> analyze_zip_files insertion_order (Archive null_blocked_export) None = Inl TypeError
   \<and> response_status (analyze_zip_files insertion_order (Archive null_blocked_export) None)
       = 500"
proof -
  have doc: "zip_open null_blocked_export
      ''connections/followers_and_following/blocked_profiles.json''
      = Inr (Document (JObj [(''relationships_blocked_users'', JArr [JNull, JObj []])]))"
    by (simp add: zip_open_def null_blocked_export_def example_defs)
  have blocked: "extract_blocked_users (Archive null_blocked_export) = Inl TypeError"
    by (simp add: extract_blocked_users_def doc json_load_def except_KeyError_def)
  have guards:
    "is_zip_safe (Archive null_blocked_export) = Inr True"
    "has_too_many_files (Archive null_blocked_export) = Inr False"
    "has_dangerous_files (Archive null_blocked_export) = Inr False"
    by (simp_all add: guard_defs null_blocked_export_def example_defs)
  have names: "extract_usernames_from_zip (Archive null_blocked_export)
       = Inr ([SStr ''a'', SStr ''b''], [SStr ''a'', SStr ''c''])"
    by (simp add: extract_defs null_blocked_export_def example_defs)
  have recent: "extract_recently_unfollowed (Archive null_blocked_export) = Inr []"
    by (simp add: extract_defs null_blocked_export_def example_defs)
  have analysis: "analyze_zip_files insertion_order (Archive null_blocked_export) None
      = Inl TypeError"
    by (simp add: analyze_zip_files_def guards names recent blocked)
  show ?thesis
    by (simp add: doc blocked analysis response_status_def)
qed

text \<open>
  C9, amended: when \<^verbatim>\<open>blocked_profiles.json\<close> parses to a dict whose
  \<^verbatim>\<open>relationships_blocked_users\<close> is a list in which a dict without \<^verbatim>\<open>title\<close> comes after
  nothing but dicts with a \<^verbatim>\<open>title\<close> (whatever follows it), \<^verbatim>\<open>extract_blocked_users\<close>
  returns the empty list: the \<^verbatim>\<open>KeyError\<close> of that record is caught, and the titles of
  the records before it are lost with it. The analysis goes on: whenever it succeeds its
  \<^verbatim>\<open>blocked_users\<close> is empty, and it does succeed, with or without an old archive, when
  the guards, the other extractions and the sorts of the two differences succeed.
\<close>

theorem blocked_record_without_title:
  assumes "zip_open z ''connections/followers_and_following/blocked_profiles.json''
             = Inr (Document (JObj kvs))"
    and "map_of kvs ''relationships_blocked_users'' = Some (JArr (titled @ rc # others))"
    and "list_all (\<lambda>t. has_key t ''title'') titled"
    and "is_dict rc"
    and "\<not> has_key rc ''title''"
  shows "extract_blocked_users (Archive z) = Inr []
       \<and> (\<forall>r. analyze_zip_files py (Archive z) old_zip = Inr r \<longrightarrow> blocked_users r = [])
       \<and> (is_zip_safe (Archive z) = Inr True \<and> has_too_many_files (Archive z) = Inr False
          \<and> has_dangerous_files (Archive z) = Inr False
          \<and> extract_usernames_from_zip (Archive z) = Inr (nf, ng)
          \<and> extract_recently_unfollowed (Archive z) = Inr ru
          \<and> extract_pending_requests (Archive z) = Inr pr
          \<and> py_sorted py (list_of_set py (set_difference ng nf)) = Inr nfb
          \<and> (case old_zip of
                None \<Rightarrow> unf = []
              | Some old_bytes \<Rightarrow> \<exists>ofs og.
                  is_zip_safe old_bytes = Inr True
                \<and> has_too_many_files old_bytes = Inr False
                \<and> has_dangerous_files old_bytes = Inr False
                \<and> extract_usernames_from_zip old_bytes = Inr (ofs, og)
                \<and> py_sorted py (list_of_set py (set_difference ofs nf)) = Inr unf) \<longrightarrow>
            analyze_zip_files py (Archive z) old_zip
              = Inr \<lparr>unfollowers = unf, not_following_back = nfb, recently_unfollowed = ru,
                     blocked_users = [], pending_requests = pr\<rparr>)"
proof -
  from assms(3-5) have "titles (titled @ rc # others) = Inl KeyError"
    by (rule titles_KeyError)
  with assms(1,2) have blocked: "extract_blocked_users (Archive z) = Inr []"
    by (simp add: extract_blocked_users_def json_load_def except_KeyError_def)
  have "blocked_users r = []" if "analyze_zip_files py (Archive z) old_zip = Inr r" for r
    using analyze_Inr_optional(2) [OF that] blocked by simp
  moreover have "analyze_zip_files py (Archive z) old_zip
              = Inr \<lparr>unfollowers = unf, not_following_back = nfb, recently_unfollowed = ru,
                     blocked_users = [], pending_requests = pr\<rparr>"
    if new: "is_zip_safe (Archive z) = Inr True" "has_too_many_files (Archive z) = Inr False"
      "has_dangerous_files (Archive z) = Inr False"
      "extract_usernames_from_zip (Archive z) = Inr (nf, ng)"
      "extract_recently_unfollowed (Archive z) = Inr ru"
      "extract_pending_requests (Archive z) = Inr pr"
      and nfb: "py_sorted py (list_of_set py (set_difference ng nf)) = Inr nfb"
      and old: "case old_zip of
                None \<Rightarrow> unf = []
              | Some old_bytes \<Rightarrow> \<exists>ofs og.
                  is_zip_safe old_bytes = Inr True
                \<and> has_too_many_files old_bytes = Inr False
                \<and> has_dangerous_files old_bytes = Inr False
                \<and> extract_usernames_from_zip old_bytes = Inr (ofs, og)
                \<and> py_sorted py (list_of_set py (set_difference ofs nf)) = Inr unf"
  proof (cases old_zip)
    case None
    with old nfb show ?thesis
      by (simp add: analyze_new_ok [OF new(1-5) blocked new(6)])
  next
    case (Some old_bytes)
    with old obtain ofs og where
      "is_zip_safe old_bytes = Inr True" "has_too_many_files old_bytes = Inr False"
      "has_dangerous_files old_bytes = Inr False"
      "extract_usernames_from_zip old_bytes = Inr (ofs, og)"
      "py_sorted py (list_of_set py (set_difference ofs nf)) = Inr unf"
      by auto
    with Some nfb show ?thesis
      by (simp add: analyze_new_ok [OF new(1-5) blocked new(6)])
  qed
  ultimately show ?thesis
    using blocked by blast
qed

theorem blocked_record_without_title_witness:
  "zip_open blocked_export ''connections/followers_and_following/blocked_profiles.json''
      = Inr (Document (JObj blocked_doc))
   \<and> map_of blocked_doc ''relationships_blocked_users''
      = Some (JArr ([JObj [(''title'', JStr ''spammer''), (''string_list_data'', JArr [])]]
                    @ JObj [(''string_list_data'', JArr [])]
                    # [JObj [(''title'', JStr ''troll'')], JNull]))
   \<and> list_all (\<lambda>t. has_key t ''title'')
        [JObj [(''title'', JStr ''spammer''), (''string_list_data'', JArr [])]]
   \<and> is_dict (JObj [(''string_list_data'', JArr [])])
   \<and> \<not> has_key (JObj [(''string_list_data'', JArr [])]) ''title''
   \<and> extract_blocked_users (Archive blocked_export) = Inr []
   \<and> analyze_zip_files insertion_order (Archive blocked_export)
        (Some (Archive (export [''a'', ''z''] [])))
       = Inr \<lparr>unfollowers = [SStr ''z''], not_following_back = [SStr ''c''],
              recently_unfollowed = [], blocked_users = [], pending_requests = []\<rparr>"
proof -
  have doc: "zip_open blocked_export
      ''connections/followers_and_following/blocked_profiles.json''
      = Inr (Document (JObj blocked_doc))"
    by (simp add: zip_open_def blocked_export_def example_defs)
  have records: "map_of blocked_doc ''relationships_blocked_users''
      = Some (JArr ([JObj [(''title'', JStr ''spammer''), (''string_list_data'', JArr [])]]
                    @ JObj [(''string_list_data'', JArr [])]
                    # [JObj [(''title'', JStr ''troll'')], JNull]))"
    by (simp add: blocked_doc_def)
  have titled: "list_all (\<lambda>t. has_key t ''title'')
      [JObj [(''title'', JStr ''spammer''), (''string_list_data'', JArr [])]]"
    by simp
  have dict: "is_dict (JObj [(''string_list_data'', JArr [])])"
    by simp
  have lacks: "\<not> has_key (JObj [(''string_list_data'', JArr [])]) ''title''"
    by simp
  have guards:
    "is_zip_safe (Archive blocked_export) = Inr True"
    "has_too_many_files (Archive blocked_export) = Inr False"
    "has_dangerous_files (Archive blocked_export) = Inr False"
    by (simp_all add: guard_defs blocked_export_def example_defs)
  have names: "extract_usernames_from_zip (Archive blocked_export)
       = Inr ([SStr ''a'', SStr ''b''], [SStr ''a'', SStr ''c''])"
    by (simp add: extract_defs blocked_export_def example_defs)
  have others:
    "extract_recently_unfollowed (Archive blocked_export) = Inr []"
    "extract_pending_requests (Archive blocked_export) = Inr []"
    by (simp_all add: extract_defs blocked_export_def example_defs)
  have sort: "py_sorted insertion_order (list_of_set insertion_order
        (set_difference [SStr ''a'', SStr ''c''] [SStr ''a'', SStr ''b'']))
       = Inr [SStr ''c'']"
    by (simp add: diff_defs)
  have old_names: "extract_usernames_from_zip (Archive (export [''a'', ''z''] []))
       = Inr ([SStr ''a'', SStr ''z''], [])"
    by (simp add: extract_defs example_defs)
  have old_sort: "py_sorted insertion_order (list_of_set insertion_order
        (set_difference [SStr ''a'', SStr ''z''] [SStr ''a'', SStr ''b'']))
       = Inr [SStr ''z'']"
    by (simp add: diff_defs)
  have old: "case Some (Archive (export [''a'', ''z''] [])) of
                None \<Rightarrow> [SStr ''z''] = []
              | Some old_bytes \<Rightarrow> \<exists>ofs og.
                  is_zip_safe old_bytes = Inr True
                \<and> has_too_many_files old_bytes = Inr False
                \<and> has_dangerous_files old_bytes = Inr False
                \<and> extract_usernames_from_zip old_bytes = Inr (ofs, og)
                \<and> py_sorted insertion_order (list_of_set insertion_order
                    (set_difference ofs [SStr ''a'', SStr ''b''])) = Inr [SStr ''z'']"
    using old_names old_sort by (simp add: export_guards)
  note blocked_record_without_title [OF doc records titled dict lacks,
      where py = insertion_order and old_zip = "Some (Archive (export [''a'', ''z''] []))"
        and nf = "[SStr ''a'', SStr ''b'']" and ng = "[SStr ''a'', SStr ''c'']"
        and ru = "[]" and pr = "[]" and nfb = "[SStr ''c'']" and unf = "[SStr ''z'']"]
  then have blocked: "extract_blocked_users (Archive blocked_export) = Inr []"
    and analysis: "analyze_zip_files insertion_order (Archive blocked_export)
        (Some (Archive (export [''a'', ''z''] [])))
       = Inr \<lparr>unfollowers = [SStr ''z''], not_following_back = [SStr ''c''],
              recently_unfollowed = [], blocked_users = [], pending_requests = []\<rparr>"
    using guards names others sort old by blast+
  from doc records titled dict lacks blocked analysis show ?thesis
    by (simp only: simp_thms)
qed

section \<open>Several members with a matching name\<close>

lemma find_first:
  "\<not> list_ex P before \<Longrightarrow> P x \<Longrightarrow> find P (before @ x # after) = Some x"
  by (induction before) simp_all

lemma contains_nonempty: "contains n (c # cs) \<Longrightarrow> n \<noteq> []"
  by (cases n) simp_all

lemma bind_exn_neq:
  "m \<noteq> Inl e \<Longrightarrow> (\<And>x. f x \<noteq> Inl e) \<Longrightarrow> bind_exn m f \<noteq> Inl e"
  by (cases m) simp_all

lemma py_iter_not_http: "py_iter v \<noteq> Inl (HTTPException c d)"
  by (cases v) simp_all

lemma py_get_not_http: "py_get v k dflt \<noteq> Inl (HTTPException c d)"
  by (cases v) simp_all

lemma py_getitem_not_http: "py_getitem v k \<noteq> Inl (HTTPException c d)"
  by (cases v) (simp_all split: option.splits)

lemma set_add_not_http: "set_add s v \<noteq> Inl (HTTPException c d)"
  by (cases v) (simp_all add: set_add_def)

lemma collect_entries_not_http: "collect_entries entries acc \<noteq> Inl (HTTPException c d)"
  by (induction entries arbitrary: acc)
    (simp_all add: bind_exn_neq py_getitem_not_http set_add_not_http)

lemma collect_items_not_http: "collect_items items acc \<noteq> Inl (HTTPException c d)"
  by (induction items arbitrary: acc)
    (simp_all add: bind_exn_neq py_get_not_http py_iter_not_http collect_entries_not_http)

lemma zip_open_not_http: "zip_open z n \<noteq> Inl (HTTPException c d)"
  by (simp add: zip_open_def split: option.splits)

lemma json_load_not_http: "json_load p \<noteq> Inl (HTTPException c d)"
  by (cases p) (simp_all add: json_load_def)

text \<open>With both names found, the extraction reads exactly the two selected members.\<close>

lemma extract_usernames_selected:
  assumes "find (\<lambda>n. contains n ''followers_1.json'') (namelist z) = Some p"
    and "find (\<lambda>n. contains n ''following.json'') (namelist z) = Some q"
    and "p \<noteq> []" and "q \<noteq> []"
  shows "extract_usernames_from_zip (Archive z) =
      bind_exn (zip_open z p) (\<lambda>f.
      bind_exn (json_load f) (\<lambda>followers_data.
      bind_exn (py_iter followers_data) (\<lambda>items.
      bind_exn (collect_items items []) (\<lambda>followers.
      bind_exn (zip_open z q) (\<lambda>f.
      bind_exn (json_load f) (\<lambda>following_data.
      bind_exn (py_get following_data ''relationships_following'' (JArr [])) (\<lambda>l.
      bind_exn (py_iter l) (\<lambda>items.
      bind_exn (collect_items items []) (\<lambda>following.
      Inr (followers, following))))))))))"
  using assms by (simp add: extract_usernames_from_zip_def falsy_path_def)

lemma zip_open_last:
  assumes "z = front @ m # back" and "\<not> list_ex (\<lambda>m'. filename m' = filename m) back"
  shows "zip_open z (filename m) = Inr (payload m)"
proof -
  from assms(2) have "\<not> list_ex (\<lambda>m'. filename m' = filename m) (rev back)"
    by (simp add: list_ex_iff)
  then have "find (\<lambda>m'. filename m' = filename m) (rev back @ m # rev front) = Some m"
    by (rule find_first) simp
  with assms(1) show ?thesis
    by (simp add: zip_open_def)
qed

text \<open>
  C10, as the specification states it: when several entry names match, the first matching
  entry is the document that is read and every other matching entry is ignored. Not when
  the first matching name is the name of a later member too, as a zip file may hold: the
  name is then looked up in the archive's name table, which holds the last member of each
  name. Here the first entry, which lists the follower \<^verbatim>\<open>first\<close>, is ignored, and the second
  entry of the same name, which lists \<^verbatim>\<open>second\<close>, is read.
\<close>

theorem first_matching_entry_counterexample:
  "namelist twice_followers
     = [''connections/followers_and_following/followers_1.json'',
        ''connections/followers_and_following/followers_1.json'',
        ''connections/followers_and_following/following.json'']
   \<and> twice_followers ! 0 = followers_member [''first'']
   \<and> twice_followers ! 1 = followers_member [''second'']
   \<and> find (\<lambda>n. contains n ''followers_1.json'') (namelist twice_followers)
       = Some ''connections/followers_and_following/followers_1.json''
   \<and> read_documents (payload (followers_member [''first''])) (payload (following_member [''g'']))
       = Inr ([SStr ''first''], [SStr ''g''])
   \<and> zip_open twice_followers ''connections/followers_and_following/followers_1.json''
       = Inr (payload (followers_member [''second'']))
   \<and> extract_usernames_from_zip (Archive twice_followers)
       = Inr ([SStr ''second''], [SStr ''g''])"
proof -
  have names: "namelist twice_followers
     = [''connections/followers_and_following/followers_1.json'',
        ''connections/followers_and_following/followers_1.json'',
        ''connections/followers_and_following/following.json'']"
    by (simp add: namelist_def twice_followers_def example_defs)
  have members: "twice_followers ! 0 = followers_member [''first'']"
    "twice_followers ! 1 = followers_member [''second'']"
    by (simp_all add: twice_followers_def)
  have found: "find (\<lambda>n. contains n ''followers_1.json'') (namelist twice_followers)
       = Some ''connections/followers_and_following/followers_1.json''"
    by (simp add: names)
  have first: "read_documents (payload (followers_member [''first'']))
       (payload (following_member [''g''])) = Inr ([SStr ''first''], [SStr ''g''])"
    by (simp add: read_documents_def json_load_def set_add_def set_member_def example_defs)
  have opened: "zip_open twice_followers
       ''connections/followers_and_following/followers_1.json''
       = Inr (payload (followers_member [''second'']))"
    by (simp add: zip_open_def twice_followers_def example_defs)
  have extracted: "extract_usernames_from_zip (Archive twice_followers)
       = Inr ([SStr ''second''], [SStr ''g''])"
    by (simp add: extract_defs twice_followers_def example_defs)
  from names members found first opened extracted show ?thesis
    by (simp only: simp_thms)
qed

text \<open>
  C10, amended: let \<open>p\<close> be the first name of the archive, in the order of its name list,
  that contains \<^verbatim>\<open>followers_1.json\<close>, and \<open>q\<close> the first that contains \<^verbatim>\<open>following.json\<close>;
  any number of later names may match too. Let \<open>mp\<close> be the last member of the archive
  named \<open>p\<close>, and \<open>mq\<close> the last member named \<open>q\<close>. Then \<open>p\<close> and \<open>q\<close> are the paths the
  extraction selects, \<open>mp\<close> and \<open>mq\<close> are the members it opens, and its outcome is what the
  reading of these two members gives: every other member, whether its name matches or
  not, is ignored. It raises no \<^verbatim>\<open>HTTPException\<close>: there is no check that the match is
  unique.
\<close>

theorem first_matching_name_last_member:
  assumes "namelist z = before_p @ p # after_p"
    and "\<not> list_ex (\<lambda>n. contains n ''followers_1.json'') before_p"
    and "contains p ''followers_1.json''"
    and "namelist z = before_q @ q # after_q"
    and "\<not> list_ex (\<lambda>n. contains n ''following.json'') before_q"
    and "contains q ''following.json''"
    and "z = front_p @ mp # back_p"
    and "filename mp = p"
    and "\<not> list_ex (\<lambda>m. filename m = p) back_p"
    and "z = front_q @ mq # back_q"
    and "filename mq = q"
    and "\<not> list_ex (\<lambda>m. filename m = q) back_q"
  shows "find (\<lambda>n. contains n ''followers_1.json'') (namelist z) = Some p
       \<and> find (\<lambda>n. contains n ''following.json'') (namelist z) = Some q
       \<and> zip_open z p = Inr (payload mp)
       \<and> zip_open z q = Inr (payload mq)
       \<and> extract_usernames_from_zip (Archive z) = read_documents (payload mp) (payload mq)
       \<and> (\<forall>c d. extract_usernames_from_zip (Archive z) \<noteq> Inl (HTTPException c d))"
proof -
  have p: "find (\<lambda>n. contains n ''followers_1.json'') (namelist z) = Some p"
    using assms(1-3) by (simp add: find_first)
  have q: "find (\<lambda>n. contains n ''following.json'') (namelist z) = Some q"
    using assms(4-6) by (simp add: find_first)
  have ne: "p \<noteq> []" "q \<noteq> []"
    using assms(3,6) by (auto dest: contains_nonempty)
  from assms(7-9) have mp: "zip_open z p = Inr (payload mp)"
    using zip_open_last [of z front_p mp back_p] by simp
  from assms(10-12) have mq: "zip_open z q = Inr (payload mq)"
    using zip_open_last [of z front_q mq back_q] by simp
  note selected = extract_usernames_selected [OF p q ne]
  have read: "extract_usernames_from_zip (Archive z)
      = read_documents (payload mp) (payload mq)"
    unfolding selected read_documents_def by (simp add: mp mq)
  have no_http: "extract_usernames_from_zip (Archive z) \<noteq> Inl (HTTPException c d)" for c d
    unfolding selected
    by (intro bind_exn_neq zip_open_not_http json_load_not_http py_iter_not_http
        py_get_not_http collect_items_not_http) simp
  from p q mp mq read no_http show ?thesis
    by blast
qed

theorem first_matching_name_last_member_witness:
  "namelist several_matches
     = [''media/readme.txt''] @ ''connections/followers_and_following/followers_1.json''
       # [''backup/followers_1.json'', ''connections/followers_and_following/followers_1.json'',
          ''backup/following.json'', ''connections/followers_and_following/following.json'']
   \<and> \<not> list_ex (\<lambda>n. contains n ''followers_1.json'') [''media/readme.txt'']
   \<and> contains ''connections/followers_and_following/followers_1.json'' ''followers_1.json''
   \<and> contains ''backup/followers_1.json'' ''followers_1.json''
   \<and> namelist several_matches
     = [''media/readme.txt'', ''connections/followers_and_following/followers_1.json'',
        ''backup/followers_1.json'', ''connections/followers_and_following/followers_1.json'']
       @ ''backup/following.json'' # [''connections/followers_and_following/following.json'']
   \<and> \<not> list_ex (\<lambda>n. contains n ''following.json'')
         [''media/readme.txt'', ''connections/followers_and_following/followers_1.json'',
          ''backup/followers_1.json'', ''connections/followers_and_following/followers_1.json'']
   \<and> contains ''backup/following.json'' ''following.json''
   \<and> contains ''connections/followers_and_following/following.json'' ''following.json''
   \<and> several_matches
     = [\<lparr>filename = ''media/readme.txt'', file_size = 1, payload = Malformed\<rparr>,
        followers_member [''first''],
        \<lparr>filename = ''backup/followers_1.json'', file_size = 5, payload = Document JNull\<rparr>]
       @ followers_member [''second'']
       # [\<lparr>filename = ''backup/following.json'', file_size = 5,
            payload = Document (following_doc [''g''])\<rparr>,
          \<lparr>filename = ''connections/followers_and_following/following.json'', file_size = 5,
            payload = Document (JNum 5)\<rparr>]
   \<and> filename (followers_member [''second''])
       = ''connections/followers_and_following/followers_1.json''
   \<and> zip_open several_matches ''connections/followers_and_following/followers_1.json''
       = Inr (Document (followers_doc [''second'']))
   \<and> zip_open several_matches ''backup/following.json''
       = Inr (Document (following_doc [''g'']))
   \<and> read_documents (Document (followers_doc [''second'']))
        (Document (following_doc [''g''])) = Inr ([SStr ''second''], [SStr ''g''])
   \<and> extract_usernames_from_zip (Archive several_matches)
       = Inr ([SStr ''second''], [SStr ''g''])"
proof -
  have n1: "namelist several_matches
     = [''media/readme.txt''] @ ''connections/followers_and_following/followers_1.json''
       # [''backup/followers_1.json'', ''connections/followers_and_following/followers_1.json'',
          ''backup/following.json'', ''connections/followers_and_following/following.json'']"
    by (simp add: namelist_def several_matches_def followers_member_def)
  have b1: "\<not> list_ex (\<lambda>n. contains n ''followers_1.json'') [''media/readme.txt'']"
    by simp
  have p: "contains ''connections/followers_and_following/followers_1.json'' ''followers_1.json''"
    by simp
  have p': "contains ''backup/followers_1.json'' ''followers_1.json''"
    by simp
  have n2: "namelist several_matches
     = [''media/readme.txt'', ''connections/followers_and_following/followers_1.json'',
        ''backup/followers_1.json'', ''connections/followers_and_following/followers_1.json'']
       @ ''backup/following.json'' # [''connections/followers_and_following/following.json'']"
    by (simp add: namelist_def several_matches_def followers_member_def)
  have b2: "\<not> list_ex (\<lambda>n. contains n ''following.json'')
         [''media/readme.txt'', ''connections/followers_and_following/followers_1.json'',
          ''backup/followers_1.json'', ''connections/followers_and_following/followers_1.json'']"
    by simp
  have q: "contains ''backup/following.json'' ''following.json''"
    by simp
  have q': "contains ''connections/followers_and_following/following.json'' ''following.json''"
    by simp
  have z1: "several_matches
     = [\<lparr>filename = ''media/readme.txt'', file_size = 1, payload = Malformed\<rparr>,
        followers_member [''first''],
        \<lparr>filename = ''backup/followers_1.json'', file_size = 5, payload = Document JNull\<rparr>]
       @ followers_member [''second'']
       # [\<lparr>filename = ''backup/following.json'', file_size = 5,
            payload = Document (following_doc [''g''])\<rparr>,
          \<lparr>filename = ''connections/followers_and_following/following.json'', file_size = 5,
            payload = Document (JNum 5)\<rparr>]"
    by (simp add: several_matches_def)
  have f1: "filename (followers_member [''second''])
       = ''connections/followers_and_following/followers_1.json''"
    by (simp add: followers_member_def)
  have l1: "\<not> list_ex (\<lambda>m. filename m = ''connections/followers_and_following/followers_1.json'')
       [\<lparr>filename = ''backup/following.json'', file_size = 5,
            payload = Document (following_doc [''g''])\<rparr>,
        \<lparr>filename = ''connections/followers_and_following/following.json'', file_size = 5,
            payload = Document (JNum 5)\<rparr>]"
    by simp
  have z2: "several_matches
     = [\<lparr>filename = ''media/readme.txt'', file_size = 1, payload = Malformed\<rparr>,
        followers_member [''first''],
        \<lparr>filename = ''backup/followers_1.json'', file_size = 5, payload = Document JNull\<rparr>,
        followers_member [''second'']]
       @ \<lparr>filename = ''backup/following.json'', file_size = 5,
            payload = Document (following_doc [''g''])\<rparr>
       # [\<lparr>filename = ''connections/followers_and_following/following.json'', file_size = 5,
            payload = Document (JNum 5)\<rparr>]"
    by (simp add: several_matches_def)
  have f2: "filename \<lparr>filename = ''backup/following.json'', file_size = 5,
            payload = Document (following_doc [''g''])\<rparr> = ''backup/following.json''"
    by simp
  have l2: "\<not> list_ex (\<lambda>m. filename m = ''backup/following.json'')
       [\<lparr>filename = ''connections/followers_and_following/following.json'', file_size = 5,
            payload = Document (JNum 5)\<rparr>]"
    by simp
  have pay: "payload (followers_member [''second'']) = Document (followers_doc [''second''])"
    "payload \<lparr>filename = ''backup/following.json'', file_size = 5,
            payload = Document (following_doc [''g''])\<rparr> = Document (following_doc [''g''])"
    by (simp_all add: followers_member_def)
  have read: "read_documents (Document (followers_doc [''second'']))
        (Document (following_doc [''g''])) = Inr ([SStr ''second''], [SStr ''g''])"
    by (simp add: read_documents_def json_load_def set_add_def set_member_def example_defs)
  note first_matching_name_last_member [OF n1 b1 p n2 b2 q z1 f1 l1 z2 f2 l2]
  then have opened:
    "zip_open several_matches ''connections/followers_and_following/followers_1.json''
       = Inr (Document (followers_doc [''second'']))"
    "zip_open several_matches ''backup/following.json''
       = Inr (Document (following_doc [''g'']))"
    and extracted: "extract_usernames_from_zip (Archive several_matches)
       = Inr ([SStr ''second''], [SStr ''g''])"
    unfolding pay read by blast+
  from n1 b1 p p' n2 b2 q q' z1 f1 opened read extracted show ?thesis
    by (simp only: simp_thms)
qed

end
